theory Spec2Isabelle
  imports Complex_Main "HOL-Library.Sublist"
begin

section \<open>JavaScript strings\<close>

text \<open>
  Strings are \<^typ>\<open>string\<close>; the helpers below are the three \<open>String.prototype\<close>
  methods the server calls, each with a string (not a regular expression) argument.
  All URLs, locale codes and file names handled here are ASCII.
\<close>

text \<open>\<open>find_at needle s\<close> is the first position of \<open>s\<close> at which \<open>needle\<close> starts.\<close>

fun find_at :: "string \<Rightarrow> string \<Rightarrow> nat option" where
  "find_at needle [] = (if needle = [] then Some 0 else None)"
| "find_at needle (c # cs) =
     (if prefix needle (c # cs) then Some 0 else map_option Suc (find_at needle cs))"

text \<open>\<open>s.indexOf(needle)\<close>: the position of the first occurrence, or \<open>-1\<close>.\<close>

definition str_indexOf :: "string \<Rightarrow> string \<Rightarrow> int" where
  "str_indexOf s needle = (case find_at needle s of None \<Rightarrow> - 1 | Some i \<Rightarrow> int i)"

text \<open>
  \<open>s.replace(pat, rep)\<close> with a string pattern: only the first occurrence is replaced,
  and a string without an occurrence is returned as it is. (The replacement strings
  used by the server are \<open>''\<close> and \<open>'lang=' + locale\<close>; they hold no \<open>$\<close>, so they are
  inserted literally.)
\<close>

fun str_replace :: "string \<Rightarrow> string \<Rightarrow> string \<Rightarrow> string" where
  "str_replace pat rep [] = (if pat = [] then rep else [])"
| "str_replace pat rep (c # cs) =
     (if prefix pat (c # cs) then rep @ drop (length pat) (c # cs)
      else c # str_replace pat rep cs)"

text \<open>\<open>s.split(sep)\<close> for a one-character separator; \<open>''.split('.')\<close> is \<open>['']\<close>.\<close>

fun str_split :: "char \<Rightarrow> string \<Rightarrow> string list" where
  "str_split sep [] = [[]]"
| "str_split sep (c # cs) =
     (if c = sep then [] # str_split sep cs
      else (case str_split sep cs of [] \<Rightarrow> [[c]] | w # ws \<Rightarrow> (c # w) # ws))"

section \<open>JSON values and property access\<close>

text \<open>
  The manifests and the translation files are JSON documents. A JavaScript value that
  came out of \<open>JSON.parse\<close> is a \<open>json\<close> built from the first six constructors;
  \<open>undefined\<close> is \<open>None\<close> of \<open>jsval\<close>. \<open>JNative n\<close> is a built-in function or object
  of the runtime (\<open>Object.prototype.toString\<close>, the constructor \<open>Object\<close>, \dots), named
  \<open>n\<close>: no document holds one, but property access reaches them through the prototype
  chain.
\<close>

datatype json =
    JNull
  | JBool bool
  | JNum int
  | JStr string
  | JArr "json list"
  | JObj "(string \<times> json) list"
  | JNative string

type_synonym jsval = "json option"

datatype js_error = TypeError | SyntaxError | FileError

text \<open>An array index written as a property key: \<open>"0"\<close>, \<open>"1"\<close>, \dots, no leading zero.\<close>

definition digit_of :: "char \<Rightarrow> nat option" where
  "digit_of c = map_of (zip ''0123456789'' [0 ..< 10]) c"

fun digits_value :: "nat \<Rightarrow> string \<Rightarrow> nat option" where
  "digits_value acc [] = Some acc"
| "digits_value acc (c # cs) =
     (case digit_of c of None \<Rightarrow> None | Some d \<Rightarrow> digits_value (10 * acc + d) cs)"

definition parse_index :: "string \<Rightarrow> nat option" where
  "parse_index s =
     (if s = [] then None
      else if hd s = CHR ''0'' then (if s = ''0'' then Some 0 else None)
      else digits_value 0 s)"

text \<open>
  The built-in prototypes belong to the runtime, not to the repository: they are a
  parameter. \<open>inh v k\<close> is what the runtime finds for \<open>v[k]\<close> when \<open>v\<close> has no own
  property \<open>k\<close>: the inherited property (\<open>toString\<close>, \<open>constructor\<close>, \dots) or
  \<open>undefined\<close>; reading an accessor property can raise. The properties of a built-in
  are all given by the runtime.
\<close>

type_synonym runtime = "json \<Rightarrow> string \<Rightarrow> js_error + jsval"

text \<open>
  The own properties of a value: the members of an object (the last of duplicate
  keys wins in \<open>JSON.parse\<close>), the elements and the length of an array or a string.
\<close>

fun own_prop :: "json \<Rightarrow> string \<Rightarrow> json option" where
  "own_prop (JObj kvs) k = map_of (rev kvs) k"
| "own_prop (JArr xs) k =
     (if k = ''length'' then Some (JNum (int (length xs)))
      else (case parse_index k of
              None \<Rightarrow> None
            | Some i \<Rightarrow> if i < length xs then Some (xs ! i) else None))"
| "own_prop (JStr s) k =
     (if k = ''length'' then Some (JNum (int (length s)))
      else (case parse_index k of
              None \<Rightarrow> None
            | Some i \<Rightarrow> if i < length s then Some (JStr [s ! i]) else None))"
| "own_prop v k = None"

text \<open>
  \<open>v[k]\<close>: a \<open>TypeError\<close> on \<open>null\<close> and \<open>undefined\<close>; otherwise the own property when
  there is one, and what the prototype chain gives when there is none.
\<close>

definition get_prop :: "runtime \<Rightarrow> jsval \<Rightarrow> string \<Rightarrow> js_error + jsval" where
  "get_prop inh v k =
     (case v of
        None \<Rightarrow> Inl TypeError
      | Some JNull \<Rightarrow> Inl TypeError
      | Some j \<Rightarrow> (case own_prop j k of Some r \<Rightarrow> Inr (Some r) | None \<Rightarrow> inh j k))"

text \<open>JavaScript truthiness: \<open>undefined\<close>, \<open>null\<close>, \<open>false\<close>, \<open>0\<close> and \<open>''\<close> are falsy.\<close>

fun truthy :: "jsval \<Rightarrow> bool" where
  "truthy None = False"
| "truthy (Some JNull) = False"
| "truthy (Some (JBool b)) = b"
| "truthy (Some (JNum n)) = (n \<noteq> 0)"
| "truthy (Some (JStr s)) = (s \<noteq> [])"
| "truthy (Some (JArr xs)) = True"
| "truthy (Some (JObj kvs)) = True"
| "truthy (Some (JNative n)) = True"

section \<open>Long-term caching: \<open>getHash\<close>\<close>

text \<open>
  \<open>d.match(new RegExp('\.' + ext + '$'))\<close>. Inside a JavaScript string literal \<open>'\.'\<close>
  is the one-character string \<open>'.'\<close>, so the expression is \<open>.ext$\<close>: any character
  but a line terminator, then \<open>ext\<close>, then the end of the string. This reading of
  \<open>ext\<close> as literal text is the one of the call sites (\<open>'js'\<close> and \<open>'css'\<close>).
\<close>

definition matches_ext :: "string \<Rightarrow> string \<Rightarrow> bool" where
  "matches_ext ext d =
     (length ext < length d \<and> suffix ext d
      \<and> d ! (length d - length ext - 1) \<notin> {CHR 0x0A, CHR 0x0D})"

text \<open>Reading an element of the chunk list as a string: \<open>d.match\<close> exists on strings only.\<close>

fun as_string :: "json \<Rightarrow> js_error + string" where
  "as_string (JStr s) = Inr s"
| "as_string _ = Inl TypeError"

text \<open>
  \<open>list.filter((d) => d.match(...))\<close>: the callback runs on every element, so one
  element that is not a string raises even when an earlier element matched.
\<close>

fun filter_ext :: "string \<Rightarrow> json list \<Rightarrow> js_error + string list" where
  "filter_ext ext [] = Inr []"
| "filter_ext ext (d # ds) =
     (case as_string d of
        Inl e \<Rightarrow> Inl e
      | Inr s \<Rightarrow>
          (case filter_ext ext ds of
             Inl e \<Rightarrow> Inl e
           | Inr rest \<Rightarrow> Inr (if matches_ext ext s then s # rest else rest)))"

text \<open>
  The \<open>filename\<close> chosen by \<open>getHash\<close>: the chunk entry itself when it is a string,
  otherwise element \<open>[0]\<close> of the filtered list (\<open>undefined\<close> when nothing matches);
  \<open>.filter\<close> on anything but an array raises.
\<close>

fun chunk_filename :: "string \<Rightarrow> jsval \<Rightarrow> js_error + string option" where
  "chunk_filename ext (Some (JStr s)) = Inr (Some s)"
| "chunk_filename ext (Some (JArr ds)) =
     (case filter_ext ext ds of
        Inl e \<Rightarrow> Inl e
      | Inr [] \<Rightarrow> Inr None
      | Inr (f # fs) \<Rightarrow> Inr (Some f))"
| "chunk_filename ext _ = Inl TypeError"

text \<open>The final expression of \<open>getHash\<close>: two first-occurrence replacements.\<close>

definition strip_name :: "string \<Rightarrow> string \<Rightarrow> string \<Rightarrow> string" where
  "strip_name key ext filename =
     str_replace (key @ ''.'') [] (str_replace (''.'' @ ext) [] filename)"

definition getHash :: "runtime \<Rightarrow> string \<Rightarrow> string \<Rightarrow> json \<Rightarrow> js_error + string" where
  "getHash inh key ext obj =
     (case get_prop inh (Some obj) ''assetsByChunkName'' of
        Inl e \<Rightarrow> Inl e
      | Inr chunks \<Rightarrow>
          (case get_prop inh chunks key of
             Inl e \<Rightarrow> Inl e
           | Inr entry \<Rightarrow>
               (case chunk_filename ext entry of
                  Inl e \<Rightarrow> Inl e
                | Inr None \<Rightarrow> Inl TypeError
                | Inr (Some filename) \<Rightarrow> Inr (strip_name key ext filename))))"

text \<open>A manifest with one chunk entry.\<close>

definition manifest_of :: "string \<Rightarrow> json \<Rightarrow> json" where
  "manifest_of key entry = JObj [(''assetsByChunkName'', JObj [(key, entry)])]"

section \<open>The asset-hash table built at startup\<close>

record hashes =
  BUNDLE_HASH :: string
  STYLES_HASH :: string
  VENDOR_HASH :: string
  VENDOR_STYLES_HASH :: string

datatype console_event = Warn string js_error | Listening "string option"

text \<open>\<open>process.env['STATIC_PATH'] || (__dirname + '/public')\<close>; an empty string is falsy.\<close>

definition static_root :: "string option \<Rightarrow> string \<Rightarrow> string" where
  "static_root env_static dirname =
     (case env_static of
        None \<Rightarrow> dirname @ ''/public''
      | Some p \<Rightarrow> if p = [] then dirname @ ''/public'' else p)"

definition manifest_path :: "string \<Rightarrow> string \<Rightarrow> string" where
  "manifest_path base k = base @ ''/dist/manifest_'' @ k @ ''.json''"

text \<open>
  The body of the \<open>try\<close> block for one locale. The disk and \<open>JSON.parse\<close> are
  parameters: \<open>readFileSync\<close> gives the text of a file or fails, \<open>parse\<close> gives the
  value of a well-formed document or fails. Every statement that can raise is a branch.
\<close>

definition loadManifest ::
  "runtime \<Rightarrow> (string \<Rightarrow> string option) \<Rightarrow> (string \<Rightarrow> json option) \<Rightarrow> string \<Rightarrow> string
     \<Rightarrow> js_error + hashes" where
  "loadManifest inh readFileSync parse base k =
     (case readFileSync (manifest_path base k) of
        None \<Rightarrow> Inl FileError
      | Some text \<Rightarrow>
          (case parse text of
             None \<Rightarrow> Inl SyntaxError
           | Some obj \<Rightarrow>
               (case getHash inh ''bundle'' ''js'' obj of
                  Inl e \<Rightarrow> Inl e
                | Inr b \<Rightarrow>
                    (case getHash inh ''styles'' ''css'' obj of
                       Inl e \<Rightarrow> Inl e
                     | Inr s \<Rightarrow>
                         (case getHash inh ''vendor'' ''js'' obj of
                            Inl e \<Rightarrow> Inl e
                          | Inr v \<Rightarrow>
                              (case getHash inh ''vendor'' ''css'' obj of
                                 Inl e \<Rightarrow> Inl e
                               | Inr vs \<Rightarrow>
                                   Inr \<lparr>BUNDLE_HASH = b, STYLES_HASH = s,
                                        VENDOR_HASH = v, VENDOR_STYLES_HASH = vs\<rparr>))))))"

text \<open>
  The callback of \<open>locales.map\<close>: the \<open>catch\<close> turns every error into a warning on
  the console and the value \<open>null\<close>.
\<close>

definition manifestEntry ::
  "runtime \<Rightarrow> (string \<Rightarrow> string option) \<Rightarrow> (string \<Rightarrow> json option) \<Rightarrow> string \<Rightarrow> string
     \<Rightarrow> (string \<times> hashes) option \<times> console_event list" where
  "manifestEntry inh readFileSync parse base k =
     (case loadManifest inh readFileSync parse base k of
        Inr h \<Rightarrow> (Some (k, h), [])
      | Inl err \<Rightarrow> (None, [Warn k err]))"

text \<open>\<open>Object.fromEntries\<close>: entries are stored in order, a later one overwrites.\<close>

definition fromEntries :: "('k \<times> 'v) list \<Rightarrow> ('k \<rightharpoonup> 'v)" where
  "fromEntries es = foldl (\<lambda>m kv. m(fst kv \<mapsto> snd kv)) Map.empty es"

text \<open>\<open>.filter(d => d)\<close> keeps the entries that are not \<open>null\<close>.\<close>

definition srcHashes_of ::
  "runtime \<Rightarrow> (string \<Rightarrow> string option) \<Rightarrow> (string \<Rightarrow> json option) \<Rightarrow> string \<Rightarrow> string list
     \<Rightarrow> (string \<rightharpoonup> hashes)" where
  "srcHashes_of inh readFileSync parse base ls =
     fromEntries (List.map_filter fst (map (manifestEntry inh readFileSync parse base) ls))"

definition bootstrap_warnings ::
  "runtime \<Rightarrow> (string \<Rightarrow> string option) \<Rightarrow> (string \<Rightarrow> json option) \<Rightarrow> string \<Rightarrow> string list
     \<Rightarrow> console_event list" where
  "bootstrap_warnings inh readFileSync parse base ls =
     concat (map snd (map (manifestEntry inh readFileSync parse base) ls))"

text \<open>
  The module runs top to bottom: the table is computed, the routes are registered,
  and \<open>server.listen\<close> is the last statement.
\<close>

record server =
  table :: "string \<rightharpoonup> hashes"
  console :: "console_event list"
  listening :: bool

definition startup ::
  "runtime \<Rightarrow> (string \<Rightarrow> string option) \<Rightarrow> (string \<Rightarrow> json option) \<Rightarrow> string option \<Rightarrow> string
     \<Rightarrow> string option \<Rightarrow> string list \<Rightarrow> server" where
  "startup inh readFileSync parse env_static dirname port ls =
     (let base = static_root env_static dirname;
          loaded = \<lparr>table = srcHashes_of inh readFileSync parse base ls,
                    console = bootstrap_warnings inh readFileSync parse base ls,
                    listening = False\<rparr>
      in loaded\<lparr>console := console loaded @ [Listening port], listening := True\<rparr>)"

section \<open>Translation lookup\<close>

text \<open>
  The loop of \<open>translateWithLocale\<close>: \<open>break\<close> on \<open>null\<close> or \<open>undefined\<close>, else
  step into the next key.
\<close>

fun walk :: "runtime \<Rightarrow> jsval \<Rightarrow> string list \<Rightarrow> js_error + jsval" where
  "walk inh result [] = Inr result"
| "walk inh result (k # ks) =
     (if result = None \<or> result = Some JNull then Inr result
      else (case get_prop inh result k of Inl e \<Rightarrow> Inl e | Inr r \<Rightarrow> walk inh r ks))"

text \<open>
  \<open>vsprintf\<close> (package \<open>sprintf-js\<close>) is a parameter: it takes the template and the
  list of format arguments and returns the formatted string or raises. The recursive
  call is \<open>translateWithLocale('en', keyStr)\<close>: it has two arguments, so the list
  \<open>arguments.slice(2)\<close> of the inner call is empty.
\<close>

function translateWithLocale ::
  "runtime \<Rightarrow> (json \<Rightarrow> 'a list \<Rightarrow> js_error + string) \<Rightarrow> (string \<rightharpoonup> json) \<Rightarrow> string \<Rightarrow> string
     \<Rightarrow> 'a list \<Rightarrow> js_error + jsval" where
  "translateWithLocale inh vsprintf localeConfigs loc keyStr formatArgs =
     (case walk inh (localeConfigs loc) (str_split CHR ''.'' keyStr) of
        Inl e \<Rightarrow> Inl e
      | Inr result \<Rightarrow>
          if loc \<noteq> ''en'' \<and> \<not> truthy result
          then translateWithLocale inh vsprintf localeConfigs ''en'' keyStr []
          else (case result of
                  None \<Rightarrow> Inr None
                | Some v \<Rightarrow>
                    if truthy (Some v)
                    then (case vsprintf v formatArgs of
                            Inl e \<Rightarrow> Inl e
                          | Inr s \<Rightarrow> Inr (Some (JStr s)))
                    else Inr (Some v)))"
  by pat_completeness auto
termination
  by (relation "measure (\<lambda>(inh, vs, cfgs, loc, k, args). if loc = ''en'' then 0 else 1)") auto

section \<open>Requests, environment and responses\<close>

text \<open>
  A query value as Express parses it: a string, or an array or nested object.
  \<open>QOther s\<close> is such a non-string value whose conversion to a string is \<open>s\<close>.
\<close>

datatype qval = QStr string | QOther string

text \<open>
  \<open>headers\<close> has lower-case names (as Node delivers them); \<open>credentials\<close> is what
  \<open>auth(req)\<close> of package \<open>basic-auth\<close> returns; \<open>res_locale\<close> is \<open>res.locale\<close> as
  the \<open>i18n.init\<close> middleware left it.
\<close>

record request =
  req_method :: string
  originalUrl :: string
  headers :: "(string \<times> string) list"
  query :: "(string \<times> qval) list"
  credentials :: "(string \<times> string) option"
  res_locale :: string

record environment =
  NODE_ENV :: "string option"
  BASIC_AUTH_CREDENTIALS :: "string option"
  ELECTRICITYMAP_TOKEN :: "string option"

text \<open>
  The constants of the module that handlers read. \<open>setLocale l\<close> is the locale the
  response holds after \<open>res.setLocale(l)\<close> (package \<open>i18n\<close>). The table is looked up
  with locale codes only, so it is a map.
\<close>

record app_state =
  locales :: "string list"
  srcHashes :: "string \<rightharpoonup> hashes"
  localeToFacebookLocale :: "string \<rightharpoonup> string"
  supportedFacebookLocales :: "string list"
  setLocale :: "string \<Rightarrow> string"

record view_model =
  alternateUrls :: "string list"
  bundleHash :: string
  vendorHash :: string
  stylesHash :: string
  vendorStylesHash :: string
  fullUrl :: string
  view_locale :: string
  supportedLocales :: "string list"
  FBLocale :: "string option"
  supportedFBLocales :: "string list"

text \<open>
  What a handler does with a request: \<open>Redirect\<close> is \<open>res.redirect(status, url)\<close>,
  \<open>Json\<close> is \<open>res.status(..).json(..)\<close> of a flat object, \<open>Send\<close> is a status, the
  headers the handler set and a text body, \<open>Content\<close> a body with its kind, \<open>File\<close> a
  static file with its \<open>max-age\<close> in seconds, \<open>Render\<close> is \<open>res.render\<close> of the page
  with the cookies set before it, \<open>Next\<close> is \<open>next()\<close>, \<open>Throw\<close> an exception that
  leaves the handler.
\<close>

datatype result =
    Redirect nat string
  | Json nat "(string \<times> string) list"
  | Send nat "(string \<times> string) list" string
  | Content string string
  | File nat string
  | Render "(string \<times> string option) list" view_model
  | Next
  | Throw js_error

section \<open>Source maps\<close>

definition sentry_addresses :: "string list" where
  "sentry_addresses =
     [''35.184.238.160'', ''104.155.159.182'', ''104.155.149.19'', ''130.211.230.102'']"

text \<open>
  The handler of \<open>app.all('/dist/*.map')\<close>. \<open>indexOf\<close> of an array is \<open>-1\<close> for a
  value that is not an element, also for \<open>undefined\<close> (no such header).
\<close>

definition sourceMapGate :: "request \<Rightarrow> result" where
  "sourceMapGate req =
     (if (case map_of (headers req) ''x-forwarded-for'' of
            None \<Rightarrow> False
          | Some ip \<Rightarrow> ip \<in> set sentry_addresses)
      then Json 401 [(''error'', ''unauthorized'')]
      else Next)"

section \<open>The catch-all handler\<close>

subsection \<open>Canonical-host redirect\<close>

definition isTmrowCo :: "string \<Rightarrow> bool" where
  "isTmrowCo h = (str_indexOf h ''electricitymap.tmrow'' \<noteq> - 1)"

definition isNonWWW :: "string \<Rightarrow> bool" where
  "isNonWWW h = (h = ''electricitymap.org'' \<or> h = ''live.electricitymap.org'')"

definition isStaging :: "string \<Rightarrow> bool" where
  "isStaging h = (h = ''staging.electricitymap.org'')"

text \<open>\<open>req.headers['user-agent'] || ''\<close>.\<close>

definition user_agent :: "request \<Rightarrow> string" where
  "user_agent req = (case map_of (headers req) ''user-agent'' of None \<Rightarrow> [] | Some ua \<Rightarrow> ua)"

text \<open>The condition of the first \<open>if\<close> of the handler, for the host \<open>h\<close>.\<close>

definition redirects :: "string \<Rightarrow> request \<Rightarrow> bool" where
  "redirects h req =
     (\<not> isStaging h \<and> (isNonWWW h \<or> isTmrowCo h)
      \<and> str_indexOf (user_agent req) ''facebookexternalhit'' = - 1)"

definition canonical :: string where
  "canonical = ''https://www.electricitymap.org''"

subsection \<open>Locale override\<close>

text \<open>
  \<open>if (req.query.fb_locale) { lr = req.query.fb_locale.split('_', 2); res.setLocale(lr[0]) }\<close>
  and then \<open>const { locale } = res\<close>. An empty string is falsy; an array or object has
  no \<open>split\<close>, so the call raises.
\<close>

definition first_segment :: "string \<Rightarrow> string" where
  "first_segment s = (case take 2 (str_split CHR ''_'' s) of [] \<Rightarrow> [] | w # ws \<Rightarrow> w)"

definition resolveLocale :: "app_state \<Rightarrow> request \<Rightarrow> js_error + string" where
  "resolveLocale app req =
     (case map_of (query req) ''fb_locale'' of
        None \<Rightarrow> Inr (res_locale req)
      | Some (QStr s) \<Rightarrow>
          if s = [] then Inr (res_locale req) else Inr (setLocale app (first_segment s))
      | Some (QOther s) \<Rightarrow> Inl TypeError)"

subsection \<open>Access gate\<close>

text \<open>\<open>const [name, pass] = cred.split(':')\<close>: \<open>pass\<close> is \<open>undefined\<close> without a colon.\<close>

definition cred_pair :: "string \<Rightarrow> string \<times> string option" where
  "cred_pair cred =
     (case str_split CHR '':'' cred of
        [] \<Rightarrow> ([], None)
      | [n] \<Rightarrow> (n, None)
      | n # p # rest \<Rightarrow> (n, Some p))"

definition cred_matches :: "string \<times> string \<Rightarrow> string \<Rightarrow> bool" where
  "cred_matches user cred =
     (fst (cred_pair cred) = fst user \<and> snd (cred_pair cred) = Some (snd user))"

text \<open>
  The \<open>forEach\<close> over \<open>BASIC_AUTH_CREDENTIALS.split(',')\<close> sets the flag when some
  pair equals the user's.
\<close>

definition authorized :: "string \<Rightarrow> (string \<times> string) option \<Rightarrow> bool" where
  "authorized creds user =
     (case user of
        None \<Rightarrow> False
      | Some u \<Rightarrow> list_ex (cred_matches u) (str_split CHR '','' creds))"

datatype gate = Denied | Granted "(string \<times> string option) list"

text \<open>
  \<open>if (process.env.BASIC_AUTH_CREDENTIALS) { ... }\<close>: the block is skipped when the
  variable is unset or empty. \<open>Granted cs\<close> carries the cookies set by the block.
\<close>

definition accessGate :: "environment \<Rightarrow> request \<Rightarrow> gate" where
  "accessGate env req =
     (case BASIC_AUTH_CREDENTIALS env of
        None \<Rightarrow> Granted []
      | Some creds \<Rightarrow>
          if creds = [] then Granted []
          else if authorized creds (credentials req)
          then Granted [(''electricitymap-token'', ELECTRICITYMAP_TOKEN env)]
          else Denied)"

definition challenge :: string where
  "challenge = ''Basic realm='' @ [CHR 0x22] @ ''Premium access to electricitymap.org'' @ [CHR 0x22]"

definition denial :: result where
  "denial = Send 401 [(''WWW-Authenticate'', challenge)] ''Access denied''"

subsection \<open>Render\<close>

text \<open>\<open>'lang=' + req.query.lang\<close>: the conversion of the value to a string.\<close>

definition to_string :: "qval option \<Rightarrow> string" where
  "to_string v = (case v of None \<Rightarrow> ''undefined'' | Some (QStr s) \<Rightarrow> s | Some (QOther s) \<Rightarrow> s)"

text \<open>
  The callback of \<open>locales.map\<close> for \<open>alternateUrls\<close>, with \<open>url\<close> the value of
  \<open>fullUrl\<close> and \<open>q\<close> that of \<open>req.query\<close> (one pair for each key).
\<close>

definition alternateUrl :: "string \<Rightarrow> (string \<times> qval) list \<Rightarrow> string \<Rightarrow> string" where
  "alternateUrl url q l =
     (if str_indexOf url ''lang'' \<noteq> - 1
      then str_replace (''lang='' @ to_string (map_of q ''lang'')) (''lang='' @ l) url
      else if q \<noteq> [] then url @ ''&lang='' @ l
      else str_replace ''?'' [] url @ ''?lang='' @ l)"

text \<open>
  \<open>res.render('pages/index', {...})\<close>. The properties of the object literal are
  evaluated in order: \<open>alternateUrls\<close> cannot raise, \<open>srcHashes[locale].BUNDLE_HASH\<close>
  raises a \<open>TypeError\<close> when \<open>srcHashes[locale]\<close> is \<open>undefined\<close>.
\<close>

definition render ::
  "app_state \<Rightarrow> request \<Rightarrow> string \<Rightarrow> (string \<times> string option) list \<Rightarrow> result" where
  "render app req loc cookies =
     (let url = canonical @ originalUrl req;
          alts = map (alternateUrl url (query req)) (locales app)
      in case srcHashes app loc of
           None \<Rightarrow> Throw TypeError
         | Some h \<Rightarrow>
             Render cookies
               \<lparr>alternateUrls = alts,
                bundleHash = BUNDLE_HASH h,
                vendorHash = VENDOR_HASH h,
                stylesHash = STYLES_HASH h,
                vendorStylesHash = VENDOR_STYLES_HASH h,
                fullUrl = url,
                view_locale = loc,
                supportedLocales = locales app,
                FBLocale = localeToFacebookLocale app loc,
                supportedFBLocales = supportedFacebookLocales app\<rparr>)"

subsection \<open>The handler\<close>

text \<open>
  \<open>app.use('/', (req, res) => ...)\<close>. \<open>req.get('host').indexOf\<close> raises when the
  request has no \<open>Host\<close> header. The branch behind the constant \<open>false\<close> is dead.
\<close>

definition catchAll :: "app_state \<Rightarrow> environment \<Rightarrow> request \<Rightarrow> result" where
  "catchAll app env req =
     (case map_of (headers req) ''host'' of
        None \<Rightarrow> Throw TypeError
      | Some h \<Rightarrow>
          if redirects h req then Redirect 301 (canonical @ originalUrl req)
          else (case resolveLocale app req of
                  Inl e \<Rightarrow> Throw e
                | Inr loc \<Rightarrow>
                    (case accessGate env req of
                       Denied \<Rightarrow> denial
                     | Granted cookies \<Rightarrow> render app req loc cookies)))"

section \<open>The router\<close>

text \<open>
  Express matches the path of the URL (the part before \<open>?\<close>) against the routes in
  the order of registration, without regard to case and with an optional trailing
  slash (its defaults, which the application keeps).
\<close>

definition lower_char :: "char \<Rightarrow> char" where
  "lower_char c =
     (case map_of (zip ''ABCDEFGHIJKLMNOPQRSTUVWXYZ'' ''abcdefghijklmnopqrstuvwxyz'') c of
        None \<Rightarrow> c
      | Some d \<Rightarrow> d)"

definition url_path :: "string \<Rightarrow> string" where
  "url_path url = takeWhile (\<lambda>c. c \<noteq> CHR ''?'') url"

definition is_get :: "string \<Rightarrow> bool" where
  "is_get m = (m = ''GET'' \<or> m = ''HEAD'')"

text \<open>A route without parameters, such as \<open>'/health'\<close>.\<close>

definition route_exact :: "string \<Rightarrow> string \<Rightarrow> bool" where
  "route_exact pat p =
     (map lower_char p = map lower_char pat \<or> map lower_char p = map lower_char pat @ ''/'')"

text \<open>A route \<open>pat*\<close>, such as \<open>'/v1/*'\<close>: the star matches any rest.\<close>

definition route_star :: "string \<Rightarrow> string \<Rightarrow> bool" where
  "route_star pat p = prefix (map lower_char pat) (map lower_char p)"

text \<open>The route \<open>'/dist/*.map'\<close>.\<close>

definition route_dist_map :: "string \<Rightarrow> bool" where
  "route_dist_map p =
     (prefix ''/dist/'' (map lower_char p)
      \<and> (suffix ''.map'' (drop 6 (map lower_char p))
         \<or> suffix ''.map/'' (drop 6 (map lower_char p))))"

text \<open>The route \<open>'/translationstatus/:language'\<close> and its parameter.\<close>

definition language_param :: "string \<Rightarrow> string" where
  "language_param p =
     (let r = drop 19 p in if r \<noteq> [] \<and> last r = CHR ''/'' then butlast r else r)"

definition route_language :: "string \<Rightarrow> bool" where
  "route_language p =
     (prefix ''/translationstatus/'' (map lower_char p)
      \<and> language_param p \<noteq> [] \<and> CHR ''/'' \<notin> set (language_param p))"

text \<open>
  What the application takes from outside the module: the version of
  \<open>package.json\<close>, the translation-status generator, and the static-file server
  (\<open>static_file p\<close> is the file served for path \<open>p\<close>, or \<open>None\<close> when it passes on).
\<close>

record externals =
  version :: string
  statusSVG :: string
  statusJSON_all :: "string list \<Rightarrow> string"
  statusJSON_one :: "string \<Rightarrow> string"
  static_file :: "string \<Rightarrow> string option"

definition api_host :: string where
  "api_host = ''https://api.electricitymap.org''"

definition max_age :: "environment \<Rightarrow> nat" where
  "max_age env = (if NODE_ENV env = Some ''production'' then 86400 else 0)"

text \<open>\<open>express.static\<close> answers \<open>GET\<close> and \<open>HEAD\<close> only.\<close>

definition serve_static :: "environment \<Rightarrow> externals \<Rightarrow> request \<Rightarrow> result" where
  "serve_static env ext req =
     (if is_get (req_method req)
      then (case static_file ext (url_path (originalUrl req)) of
              None \<Rightarrow> Next
            | Some f \<Rightarrow> File (max_age env) f)
      else Next)"

text \<open>
  The routes in the order of the module. The first three middlewares (compression,
  the \<open>Access-Control\<close> headers, \<open>i18n.init\<close>) always call \<open>next()\<close>.
\<close>

definition app :: "app_state \<Rightarrow> environment \<Rightarrow> externals \<Rightarrow> request \<Rightarrow> result" where
  "app st env ext req =
     (let p = url_path (originalUrl req); g = is_get (req_method req) in
      if g \<and> route_exact ''/health'' p then Json 200 [(''status'', ''ok'')]
      else if g \<and> route_exact ''/clientVersion'' p then Content ''text'' (version ext)
      else if g \<and> route_exact ''/translationstatus/badges.svg'' p
        then Content ''image/svg+xml;charset=utf-8'' (statusSVG ext)
      else if g \<and> route_exact ''/translationstatus'' p
        then Content ''json'' (statusJSON_all ext (locales st))
      else if g \<and> route_language p
        then Content ''json'' (statusJSON_one ext (language_param p))
      else if g \<and> route_star ''/v1/'' p then Redirect 301 (api_host @ originalUrl req)
      else if g \<and> route_star ''/v2/'' p then Redirect 301 (api_host @ originalUrl req)
      else (case (if route_dist_map p then sourceMapGate req else Next) of
              Next \<Rightarrow>
                (case serve_static env ext req of
                   Next \<Rightarrow> catchAll st env req
                 | r \<Rightarrow> r)
            | r \<Rightarrow> r))"

section \<open>Ratio percentages (\<open>helpers/math.js\<close>)\<close>

text \<open>
  A JavaScript number is a double: a finite value (a rational number), an infinity or
  \<open>NaN\<close>. \<open>Infinite\<close> stands for either infinity and \<open>Fin 0\<close> for either zero: the
  function below never tells the signs apart (an infinity of either sign is not finite,
  and both zeros are printed \<open>0\<close>).
\<close>

datatype jsnum = Fin rat | Infinite | NaN

text \<open>The largest finite double.\<close>

definition max_double :: rat where
  "max_double = (2 ^ 53 - 1) * 2 ^ 971"

text \<open>
  The result of an arithmetic operation whose exact value is \<open>x\<close>. The rounding to the
  nearest double (with unbounded exponent) is the parameter \<open>fl\<close>; a rounded value
  beyond \<open>max_double\<close> is an infinity.
\<close>

definition to_double :: "(rat \<Rightarrow> rat) \<Rightarrow> rat \<Rightarrow> jsnum" where
  "to_double fl x = (if max_double < \<bar>fl x\<bar> then Infinite else Fin (fl x))"

fun js_div :: "(rat \<Rightarrow> rat) \<Rightarrow> jsnum \<Rightarrow> jsnum \<Rightarrow> jsnum" where
  "js_div fl NaN y = NaN"
| "js_div fl x NaN = NaN"
| "js_div fl Infinite Infinite = NaN"
| "js_div fl Infinite (Fin b) = Infinite"
| "js_div fl (Fin a) Infinite = Fin 0"
| "js_div fl (Fin a) (Fin b) =
     (if b = 0 then (if a = 0 then NaN else Infinite) else to_double fl (a / b))"

fun js_mul :: "(rat \<Rightarrow> rat) \<Rightarrow> jsnum \<Rightarrow> jsnum \<Rightarrow> jsnum" where
  "js_mul fl NaN y = NaN"
| "js_mul fl x NaN = NaN"
| "js_mul fl Infinite Infinite = Infinite"
| "js_mul fl Infinite (Fin b) = (if b = 0 then NaN else Infinite)"
| "js_mul fl (Fin a) Infinite = (if a = 0 then NaN else Infinite)"
| "js_mul fl (Fin a) (Fin b) = to_double fl (a * b)"

text \<open>
  \<open>Math.round\<close>: the nearest integer, the larger one at a tie; the result is exact.
\<close>

fun math_round :: "jsnum \<Rightarrow> jsnum" where
  "math_round (Fin x) = Fin (of_int \<lfloor>x + 1 / 2\<rfloor>)"
| "math_round Infinite = Infinite"
| "math_round NaN = NaN"

text \<open>\<open>const perc = Math.round(value / total * 10000) / 100\<close>.\<close>

definition perc :: "(rat \<Rightarrow> rat) \<Rightarrow> jsnum \<Rightarrow> jsnum \<Rightarrow> jsnum" where
  "perc fl v t = js_div fl (math_round (js_mul fl (js_div fl v t) (Fin 10000))) (Fin 100)"

text \<open>
  \<open>isFinite(perc) ? `${perc}` : '?'\<close>. The conversion of a finite number to a string
  is the parameter \<open>to_str\<close>.
\<close>

definition getRatioPercent ::
  "(rat \<Rightarrow> rat) \<Rightarrow> (rat \<Rightarrow> string) \<Rightarrow> jsnum \<Rightarrow> jsnum \<Rightarrow> string" where
  "getRatioPercent fl to_str v t =
     (case perc fl v t of Fin p \<Rightarrow> to_str p | Infinite \<Rightarrow> ''?'' | NaN \<Rightarrow> ''?'')"

section \<open>Sample inputs\<close>

text \<open>Concrete inputs on which the theorems below are instantiated.\<close>

text \<open>
  A runtime, as far as the samples exercise it: the properties an object of a
  document inherits from \<open>Object.prototype\<close> (\<open>constructor\<close> is the built-in \<open>Object\<close>,
  \<open>__proto__\<close> the prototype itself, the others are built-in functions), and the
  \<open>name\<close> of the constructor \<open>Object\<close>. The samples reach no other inherited property.
\<close>

definition object_prototype_names :: "string list" where
  "object_prototype_names =
     [''__defineGetter__'', ''__defineSetter__'', ''hasOwnProperty'', ''__lookupGetter__'',
      ''__lookupSetter__'', ''isPrototypeOf'', ''propertyIsEnumerable'', ''toString'',
      ''valueOf'', ''toLocaleString'']"

definition sample_runtime :: runtime where
  "sample_runtime v k =
     (case v of
        JObj kvs \<Rightarrow>
          if k = ''constructor'' then Inr (Some (JNative ''Object''))
          else if k = ''__proto__'' then Inr (Some (JNative ''Object.prototype''))
          else if k \<in> set object_prototype_names
          then Inr (Some (JNative (''Object.prototype.'' @ k)))
          else Inr None
      | JNative n \<Rightarrow>
          if n = ''Object'' \<and> k = ''name'' then Inr (Some (JStr ''Object'')) else Inr None
      | _ \<Rightarrow> Inr None)"

definition sample_manifest :: json where
  "sample_manifest =
     JObj [(''assetsByChunkName'',
            JObj [(''bundle'', JStr ''bundle.abc123.js''),
                  (''styles'', JStr ''styles.0a1b2c.css''),
                  (''vendor'', JArr [JStr ''vendor.77aa88.js'', JStr ''vendor.99bb00.css''])])]"

definition sample_disk :: "string \<Rightarrow> string option" where
  "sample_disk = map_of [(''/srv/public/dist/manifest_en.json'', ''EN'')]"

definition sample_parse :: "string \<Rightarrow> json option" where
  "sample_parse = map_of [(''EN'', sample_manifest)]"

definition sample_hashes :: hashes where
  "sample_hashes = \<lparr>BUNDLE_HASH = ''abc123'', STYLES_HASH = ''0a1b2c'',
                      VENDOR_HASH = ''77aa88'', VENDOR_STYLES_HASH = ''99bb00''\<rparr>"


definition sentry_map_request :: request where
  "sentry_map_request = \<lparr>req_method = ''GET'', originalUrl = ''/dist/bundle.abc123.js.map'',
     headers = [(''host'', ''www.electricitymap.org''), (''x-forwarded-for'', ''35.184.238.160'')],
     query = [], credentials = None, res_locale = ''en''\<rparr>"

definition visitor_map_request :: request where
  "visitor_map_request = \<lparr>req_method = ''GET'', originalUrl = ''/dist/bundle.abc123.js.map'',
     headers = [(''host'', ''www.electricitymap.org''), (''x-forwarded-for'', ''203.0.113.7'')],
     query = [], credentials = None, res_locale = ''en''\<rparr>"

definition sample_translations :: "string \<rightharpoonup> json" where
  "sample_translations =
     [''en'' \<mapsto> JObj [(''greeting'', JStr ''Hello %s'')], ''fr'' \<mapsto> JObj []]"

definition sample_app :: app_state where
  "sample_app =
     \<lparr>locales = [''en'', ''fr'', ''de''],
      srcHashes = [''en'' \<mapsto> sample_hashes, ''de'' \<mapsto> sample_hashes],
      localeToFacebookLocale = [''en'' \<mapsto> ''en_US'', ''fr'' \<mapsto> ''fr_FR'', ''de'' \<mapsto> ''de_DE''],
      supportedFacebookLocales = [''en_US'', ''fr_FR'', ''de_DE''],
      setLocale = (\<lambda>l. if l \<in> set [''en'', ''fr'', ''de''] then l else ''en'')\<rparr>"

definition premium_env :: environment where
  "premium_env = \<lparr>NODE_ENV = Some ''production'',
                    BASIC_AUTH_CREDENTIALS = Some ''alice:secret'',
                    ELECTRICITYMAP_TOKEN = Some ''token''\<rparr>"

definition open_env :: environment where
  "open_env = \<lparr>NODE_ENV = Some ''production'',
                 BASIC_AUTH_CREDENTIALS = None,
                 ELECTRICITYMAP_TOKEN = Some ''token''\<rparr>"

definition alice_request :: request where
  "alice_request = \<lparr>req_method = ''GET'', originalUrl = ''/'',
     headers = [(''host'', ''www.electricitymap.org''), (''user-agent'', ''Mozilla/5.0'')],
     query = [], credentials = Some (''alice'', ''secret''), res_locale = ''en''\<rparr>"

definition mallory_request :: request where
  "mallory_request = \<lparr>req_method = ''GET'', originalUrl = ''/'',
     headers = [(''host'', ''www.electricitymap.org''), (''user-agent'', ''Mozilla/5.0'')],
     query = [], credentials = Some (''mallory'', ''guess''), res_locale = ''en''\<rparr>"

definition crawler_request :: request where
  "crawler_request = \<lparr>req_method = ''GET'', originalUrl = ''/map?solar=true'',
     headers = [(''host'', ''electricitymap.org''),
                (''user-agent'', ''facebookexternalhit/1.1'')],
     query = [(''solar'', QStr ''true'')], credentials = None, res_locale = ''en''\<rparr>"

definition browser_request :: request where
  "browser_request = \<lparr>req_method = ''GET'', originalUrl = ''/map?solar=true'',
     headers = [(''host'', ''electricitymap.org''), (''user-agent'', ''Mozilla/5.0'')],
     query = [(''solar'', QStr ''true'')], credentials = None, res_locale = ''en''\<rparr>"

definition french_request :: request where
  "french_request = \<lparr>req_method = ''GET'', originalUrl = ''/?fb_locale=fr_FR'',
     headers = [(''host'', ''www.electricitymap.org''),
                (''user-agent'', ''facebookexternalhit/1.1'')],
     query = [(''fb_locale'', QStr ''fr_FR'')], credentials = None, res_locale = ''en''\<rparr>"


text \<open>
  A rounding that changes nothing, right on the samples, whose intermediate results
  are all doubles or are rounded to an integer before they are used; and the decimal
  string of a number with at most two decimals.
\<close>

definition exact_rounding :: "rat \<Rightarrow> rat" where
  "exact_rounding x = x"

definition digit_char :: "nat \<Rightarrow> char" where
  "digit_char n = ''0123456789'' ! (n mod 10)"

function show_nat :: "nat \<Rightarrow> string" where
  "show_nat n = (if n < 10 then [digit_char n] else show_nat (n div 10) @ [digit_char n])"
  by pat_completeness auto
termination
  by (relation "measure id") auto

definition sample_number_string :: "rat \<Rightarrow> string" where
  "sample_number_string p =
     (let n = nat \<lfloor>\<bar>p\<bar> * 100\<rfloor>
      in (if p < 0 \<and> n \<noteq> 0 then ''-'' else [])
         @ show_nat (n div 100)
         @ (if n mod 100 = 0 then []
            else ''.'' @ [digit_char (n mod 100 div 10)]
                 @ (if n mod 10 = 0 then [] else [digit_char n])))"

declare translateWithLocale.simps [simp del]

declare show_nat.simps [simp del]

section \<open>Property access\<close>

lemma get_prop_simps [simp]:
  "get_prop inh None k = Inl TypeError"
  "get_prop inh (Some JNull) k = Inl TypeError"
  "get_prop inh (Some (JObj kvs)) k =
     (case map_of (rev kvs) k of Some r \<Rightarrow> Inr (Some r) | None \<Rightarrow> inh (JObj kvs) k)"
  "get_prop inh (Some (JBool b)) k = inh (JBool b) k"
  "get_prop inh (Some (JNum n)) k = inh (JNum n) k"
  "get_prop inh (Some (JNative m)) k = inh (JNative m) k"
  by (simp_all add: get_prop_def)

lemma get_prop_own:
  "j \<noteq> JNull \<Longrightarrow> own_prop j k = Some r \<Longrightarrow> get_prop inh (Some j) k = Inr (Some r)"
  by (cases j) (simp_all add: get_prop_def)

lemma get_prop_inherited:
  "j \<noteq> JNull \<Longrightarrow> own_prop j k = None \<Longrightarrow> get_prop inh (Some j) k = inh j k"
  by (cases j) (simp_all add: get_prop_def)

section \<open>Properties of \<open>getHash\<close>\<close>

lemma str_replace_at_head:
  "prefix pat s \<Longrightarrow> str_replace pat rep s = rep @ drop (length pat) s"
  by (cases s) auto

lemma str_replace_skip:
  "p \<notin> set xs \<Longrightarrow> str_replace (p # ps) rep (xs @ ys) = xs @ str_replace (p # ps) rep ys"
  by (induction xs) auto

lemma prefix_before_sep:
  assumes "c \<notin> set ext" and "prefix ext (h @ c # zs)"
  shows "prefix ext h"
proof (cases "prefix ext h")
  case True then show ?thesis .
next
  case False
  with assms(2) obtain us where us: "ext = h @ us" "prefix us (c # zs)"
    by (auto simp: prefix_append)
  from False us(1) have "us \<noteq> []" by auto
  then obtain u us' where "us = u # us'" by (cases us) auto
  with us(2) have "u = c" by simp
  with us(1) \<open>us = u # us'\<close> assms(1) show ?thesis by simp
qed

lemma strip_extension:
  assumes "CHR ''.'' \<notin> set key" "CHR ''.'' \<notin> set h" "CHR ''.'' \<notin> set ext" "\<not> prefix ext h"
  shows "str_replace (CHR ''.'' # ext) [] (key @ CHR ''.'' # h @ CHR ''.'' # ext) = key @ CHR ''.'' # h"
proof -
  have np: "\<not> prefix ext (h @ CHR ''.'' # ext)"
  proof
    assume "prefix ext (h @ CHR ''.'' # ext)"
    with assms(3) have "prefix ext h" by (rule prefix_before_sep)
    with assms(4) show False by simp
  qed
  have "str_replace (CHR ''.'' # ext) [] (key @ CHR ''.'' # h @ CHR ''.'' # ext)
        = key @ str_replace (CHR ''.'' # ext) [] (CHR ''.'' # h @ CHR ''.'' # ext)"
    using assms(1) by (rule str_replace_skip)
  also have "\<dots> = key @ CHR ''.'' # str_replace (CHR ''.'' # ext) [] (h @ CHR ''.'' # ext)"
    using np by simp
  also have "\<dots> = key @ CHR ''.'' # h @ str_replace (CHR ''.'' # ext) [] (CHR ''.'' # ext)"
    using assms(2) by (simp add: str_replace_skip)
  also have "\<dots> = key @ CHR ''.'' # h" by simp
  finally show ?thesis .
qed

lemma strip_prefix_key:
  "str_replace (key @ ''.'') [] (key @ CHR ''.'' # h) = h"
proof -
  have "prefix (key @ ''.'') (key @ CHR ''.'' # h)" by simp
  then have "str_replace (key @ ''.'') [] (key @ CHR ''.'' # h)
             = [] @ drop (length (key @ ''.'')) (key @ CHR ''.'' # h)"
    by (rule str_replace_at_head)
  then show ?thesis by simp
qed

lemma strip_name_hash:
  assumes "CHR ''.'' \<notin> set key" "CHR ''.'' \<notin> set h" "CHR ''.'' \<notin> set ext" "\<not> prefix ext h"
  shows "strip_name key ext (key @ ''.'' @ h @ ''.'' @ ext) = h"
proof -
  have "strip_name key ext (key @ ''.'' @ h @ ''.'' @ ext)
        = str_replace (key @ ''.'') []
            (str_replace (CHR ''.'' # ext) [] (key @ CHR ''.'' # h @ CHR ''.'' # ext))"
    by (simp add: strip_name_def)
  also have "\<dots> = str_replace (key @ ''.'') [] (key @ CHR ''.'' # h)"
    by (simp only: strip_extension [OF assms])
  also have "\<dots> = h" by (rule strip_prefix_key)
  finally show ?thesis .
qed

lemma getHash_manifest_of:
  "getHash inh key ext (manifest_of key entry) =
     (case chunk_filename ext (Some entry) of
        Inl e \<Rightarrow> Inl e
      | Inr None \<Rightarrow> Inl TypeError
      | Inr (Some filename) \<Rightarrow> Inr (strip_name key ext filename))"
  by (simp add: getHash_def manifest_of_def)

lemma filter_ext_strings:
  "filter_ext ext (map JStr ds) = Inr (filter (matches_ext ext) ds)"
  by (induction ds) simp_all

lemma matches_ext_dot:
  assumes "suffix (''.'' @ ext) d"
  shows "matches_ext ext d"
proof -
  from assms obtain r where d: "d = r @ CHR ''.'' # ext" by (auto simp: suffix_def)
  have "d ! (length d - length ext - 1) = CHR ''.''"
    unfolding d by (simp add: nth_append)
  moreover have "suffix ext d" unfolding d by (simp add: suffix_def)
  moreover have "length ext < length d" unfolding d by simp
  ultimately show ?thesis by (simp add: matches_ext_def)
qed

lemma getHash_list_first_match:
  assumes "filter (matches_ext ext) ds = f # fs"
  shows "getHash inh key ext (manifest_of key (JArr (map JStr ds)))
         = getHash inh key ext (manifest_of key (JStr f))"
  using assms by (simp add: getHash_manifest_of filter_ext_strings)

text \<open>
  Claim C6. \<open>getHash\<close> returns the content hash: the part of the file name left after
  the chunk name and the extension are stripped. For the entry \<open>"bundle.abc123.js"\<close>
  it returns \<open>"abc123"\<close>; for a list entry it takes the first element that the
  extension filter keeps, so the list of \<open>"bundle.abc123.js"\<close> and
  \<open>"bundle.abc123.js.map"\<close> gives \<open>"abc123"\<close> too. In general a name
  \<open>key.h.ext\<close> gives \<open>h\<close> (dots occur only as the two separators, and \<open>h\<close> does not
  begin with the extension, as no hexadecimal hash does for \<open>js\<close> and \<open>css\<close>); a list
  of names gives what its first kept name gives; every name ending in \<open>.ext\<close> is kept,
  and every kept name ends in \<open>ext\<close>.
\<close>

theorem getHash_extracts_hash:
  "getHash inh ''bundle'' ''js'' (manifest_of ''bundle'' (JStr ''bundle.abc123.js'')) = Inr ''abc123''
   \<and> getHash inh ''bundle'' ''js''
        (manifest_of ''bundle'' (JArr [JStr ''bundle.abc123.js'', JStr ''bundle.abc123.js.map'']))
      = Inr ''abc123''
   \<and> (CHR ''.'' \<notin> set key \<and> CHR ''.'' \<notin> set h \<and> CHR ''.'' \<notin> set ext \<and> \<not> prefix ext h
        \<longrightarrow> getHash inh key ext (manifest_of key (JStr (key @ ''.'' @ h @ ''.'' @ ext))) = Inr h)
   \<and> (filter (matches_ext ext) ds = f # fs
        \<longrightarrow> getHash inh key ext (manifest_of key (JArr (map JStr ds)))
            = getHash inh key ext (manifest_of key (JStr f)))
   \<and> (suffix (''.'' @ ext) d \<longrightarrow> matches_ext ext d)
   \<and> (matches_ext ext d \<longrightarrow> suffix ext d)"
proof (intro conjI impI)
  show "getHash inh ''bundle'' ''js'' (manifest_of ''bundle'' (JStr ''bundle.abc123.js'')) = Inr ''abc123''"
    by (simp add: getHash_manifest_of strip_name_def)
  show "getHash inh ''bundle'' ''js''
        (manifest_of ''bundle'' (JArr [JStr ''bundle.abc123.js'', JStr ''bundle.abc123.js.map'']))
      = Inr ''abc123''"
    by (simp add: getHash_manifest_of strip_name_def matches_ext_def suffix_to_prefix)
next
  assume a: "CHR ''.'' \<notin> set key \<and> CHR ''.'' \<notin> set h \<and> CHR ''.'' \<notin> set ext \<and> \<not> prefix ext h"
  then have "strip_name key ext (key @ ''.'' @ h @ ''.'' @ ext) = h"
    by (intro strip_name_hash) simp_all
  then show "getHash inh key ext (manifest_of key (JStr (key @ ''.'' @ h @ ''.'' @ ext))) = Inr h"
    by (simp only: getHash_manifest_of chunk_filename.simps sum.case option.case)
next
  assume "filter (matches_ext ext) ds = f # fs"
  then show "getHash inh key ext (manifest_of key (JArr (map JStr ds)))
            = getHash inh key ext (manifest_of key (JStr f))"
    by (rule getHash_list_first_match)
next
  assume "suffix (''.'' @ ext) d" then show "matches_ext ext d" by (rule matches_ext_dot)
next
  assume "matches_ext ext d" then show "suffix ext d" by (simp add: matches_ext_def)
qed

text \<open>The theorem at the chunk \<open>vendor\<close> with extension \<open>css\<close>.\<close>

theorem getHash_extracts_hash_witness:
  "CHR ''.'' \<notin> set ''vendor'' \<and> CHR ''.'' \<notin> set ''9f8e7d'' \<and> CHR ''.'' \<notin> set ''css''
   \<and> \<not> prefix ''css'' ''9f8e7d''
   \<and> filter (matches_ext ''css'') [''vendor.9f8e7d.js'', ''vendor.9f8e7d.css''] = [''vendor.9f8e7d.css'']
   \<and> suffix (''.'' @ ''css'') ''vendor.9f8e7d.css''
   \<and> matches_ext ''css'' ''vendor.9f8e7d.css''
   \<and> getHash sample_runtime ''vendor'' ''css'' (manifest_of ''vendor'' (JStr ''vendor.9f8e7d.css'')) = Inr ''9f8e7d''
   \<and> getHash sample_runtime ''vendor'' ''css''
        (manifest_of ''vendor'' (JArr (map JStr [''vendor.9f8e7d.js'', ''vendor.9f8e7d.css''])))
      = getHash sample_runtime ''vendor'' ''css'' (manifest_of ''vendor'' (JStr ''vendor.9f8e7d.css''))"
proof -
  have a1: "CHR ''.'' \<notin> set ''vendor''" and a2: "CHR ''.'' \<notin> set ''9f8e7d''"
    and a3: "CHR ''.'' \<notin> set ''css''" and a4: "\<not> prefix ''css'' ''9f8e7d''"
    by simp_all
  have b: "filter (matches_ext ''css'') [''vendor.9f8e7d.js'', ''vendor.9f8e7d.css''] = [''vendor.9f8e7d.css'']"
    by (simp add: matches_ext_def suffix_to_prefix)
  have c: "suffix (''.'' @ ''css'') ''vendor.9f8e7d.css''" by (simp add: suffix_to_prefix)
  note t = getHash_extracts_hash [of sample_runtime "''vendor''" "''9f8e7d''" "''css''"
      "[''vendor.9f8e7d.js'', ''vendor.9f8e7d.css'']" "''vendor.9f8e7d.css''" "[]" "''vendor.9f8e7d.css''"]
  have d: "getHash sample_runtime ''vendor'' ''css'' (manifest_of ''vendor'' (JStr (''vendor'' @ ''.'' @ ''9f8e7d'' @ ''.'' @ ''css''))) = Inr ''9f8e7d''"
    using t a1 a2 a3 a4 by blast
  have d': "getHash sample_runtime ''vendor'' ''css'' (manifest_of ''vendor'' (JStr ''vendor.9f8e7d.css'')) = Inr ''9f8e7d''"
    using d by simp
  have e: "getHash sample_runtime ''vendor'' ''css''
        (manifest_of ''vendor'' (JArr (map JStr [''vendor.9f8e7d.js'', ''vendor.9f8e7d.css''])))
      = getHash sample_runtime ''vendor'' ''css'' (manifest_of ''vendor'' (JStr ''vendor.9f8e7d.css''))"
    using t b by blast
  have f: "matches_ext ''css'' ''vendor.9f8e7d.css''" using t c by blast
  show ?thesis by (intro conjI) (fact a1 a2 a3 a4 b c f d' e)+
qed

section \<open>Properties of the asset-hash table\<close>

lemma foldl_update_map_of:
  "foldl (\<lambda>m kv. m(fst kv \<mapsto> snd kv)) m es = m ++ map_of (rev es)"
proof (induction es arbitrary: m)
  case Nil
  show ?case by simp
next
  case (Cons kv es)
  have "foldl (\<lambda>m kv. m(fst kv \<mapsto> snd kv)) m (kv # es)
        = foldl (\<lambda>m kv. m(fst kv \<mapsto> snd kv)) (m(fst kv \<mapsto> snd kv)) es"
    by simp
  also have "\<dots> = m(fst kv \<mapsto> snd kv) ++ map_of (rev es)"
    by (rule Cons.IH)
  also have "\<dots> = m ++ map_of (rev (kv # es))"
    by (cases kv) (simp add: map_add_def fun_eq_iff split: option.splits)
  finally show ?case .
qed

lemma fromEntries_map_of: "fromEntries es = map_of (rev es)"
  by (simp add: fromEntries_def foldl_update_map_of)

lemma loaded_entries:
  "List.map_filter fst (map (manifestEntry inh rd parse base) ls)
   = concat (map (\<lambda>k. case loadManifest inh rd parse base k of Inl e \<Rightarrow> [] | Inr h \<Rightarrow> [(k, h)]) ls)"
  by (induction ls) (simp_all add: map_filter_simps manifestEntry_def split: sum.splits)

lemma loaded_entries_set:
  "(k, h) \<in> set (List.map_filter fst (map (manifestEntry inh rd parse base) ls))
   \<longleftrightarrow> k \<in> set ls \<and> loadManifest inh rd parse base k = Inr h"
  unfolding loaded_entries by (auto split: sum.splits)

lemma srcHashes_of_Some:
  "srcHashes_of inh rd parse base ls k = Some h
   \<longleftrightarrow> k \<in> set ls \<and> loadManifest inh rd parse base k = Inr h"
proof
  assume "srcHashes_of inh rd parse base ls k = Some h"
  then have "(k, h) \<in> set (rev (List.map_filter fst (map (manifestEntry inh rd parse base) ls)))"
    unfolding srcHashes_of_def fromEntries_map_of by (rule map_of_SomeD)
  then show "k \<in> set ls \<and> loadManifest inh rd parse base k = Inr h"
    by (simp add: loaded_entries_set)
next
  assume a: "k \<in> set ls \<and> loadManifest inh rd parse base k = Inr h"
  let ?es = "rev (List.map_filter fst (map (manifestEntry inh rd parse base) ls))"
  from a have "(k, h) \<in> set ?es" by (simp add: loaded_entries_set)
  then have "\<exists>x. map_of ?es k = Some x" by (rule weak_map_of_SomeI)
  then obtain h' where h': "map_of ?es k = Some h'" by blast
  then have "(k, h') \<in> set ?es" by (rule map_of_SomeD)
  then have "loadManifest inh rd parse base k = Inr h'" by (simp add: loaded_entries_set)
  with a have "h' = h" by simp
  with h' show "srcHashes_of inh rd parse base ls k = Some h"
    by (simp add: srcHashes_of_def fromEntries_map_of)
qed

lemma srcHashes_of_None:
  "srcHashes_of inh rd parse base ls k = None
   \<longleftrightarrow> k \<notin> set ls \<or> (\<exists>e. loadManifest inh rd parse base k = Inl e)"
proof (cases "loadManifest inh rd parse base k")
  case (Inl e)
  have "srcHashes_of inh rd parse base ls k \<noteq> Some h" for h
    using Inl by (simp add: srcHashes_of_Some)
  with Inl show ?thesis by auto
next
  case (Inr h)
  show ?thesis
  proof (cases "k \<in> set ls")
    case True
    with Inr have "srcHashes_of inh rd parse base ls k = Some h" by (simp add: srcHashes_of_Some)
    with Inr True show ?thesis by simp
  next
    case False
    have "srcHashes_of inh rd parse base ls k \<noteq> Some h'" for h'
      using False by (simp add: srcHashes_of_Some)
    with False show ?thesis by auto
  qed
qed

lemma bootstrap_warnings_eq:
  "bootstrap_warnings inh rd parse base ls
   = concat (map (\<lambda>k. case loadManifest inh rd parse base k of Inl e \<Rightarrow> [Warn k e] | Inr h \<Rightarrow> []) ls)"
  by (induction ls) (simp_all add: bootstrap_warnings_def manifestEntry_def split: sum.splits)

lemma bootstrap_warnings_set:
  "ev \<in> set (bootstrap_warnings inh rd parse base ls)
   \<longleftrightarrow> (\<exists>k e. ev = Warn k e \<and> k \<in> set ls \<and> loadManifest inh rd parse base k = Inl e)"
  unfolding bootstrap_warnings_eq by (auto split: sum.splits)

lemma startup_fields:
  "table (startup inh rd parse env_static dirname port ls)
     = srcHashes_of inh rd parse (static_root env_static dirname) ls"
  "console (startup inh rd parse env_static dirname port ls)
     = bootstrap_warnings inh rd parse (static_root env_static dirname) ls @ [Listening port]"
  "listening (startup inh rd parse env_static dirname port ls)"
  by (simp_all add: startup_def Let_def)

lemma loadManifest_failures:
  "rd (manifest_path base k) = None \<Longrightarrow> loadManifest inh rd parse base k = Inl FileError"
  "rd (manifest_path base k) = Some t \<Longrightarrow> parse t = None
     \<Longrightarrow> loadManifest inh rd parse base k = Inl SyntaxError"
  "rd (manifest_path base k) = Some t \<Longrightarrow> parse t = Some obj
     \<Longrightarrow> getHash inh ''bundle'' ''js'' obj = Inl e \<or> getHash inh ''styles'' ''css'' obj = Inl e
         \<or> getHash inh ''vendor'' ''js'' obj = Inl e \<or> getHash inh ''vendor'' ''css'' obj = Inl e
     \<Longrightarrow> \<exists>e'. loadManifest inh rd parse base k = Inl e'"
  by (auto simp: loadManifest_def split: sum.splits)

text \<open>
  Claim C7. A locale whose manifest cannot be read or parsed, or whose hash extraction
  raises, does not stop the start: the function below is total, the locale gets a
  warning on the console and no entry in the table, and every locale whose manifest
  loads has its entry. The table is the one computed before \<open>listen\<close>: the console
  holds the warnings first and the listening message last.
\<close>

theorem srcHashes_skips_failed_manifests:
  "(k \<in> set ls \<and> loadManifest inh rd parse base k = Inl e
      \<longrightarrow> srcHashes_of inh rd parse base ls k = None
          \<and> Warn k e \<in> set (bootstrap_warnings inh rd parse base ls))
   \<and> (k \<in> set ls \<and> loadManifest inh rd parse base k = Inr h
      \<longrightarrow> srcHashes_of inh rd parse base ls k = Some h)
   \<and> dom (srcHashes_of inh rd parse base ls)
      = {k \<in> set ls. \<exists>h. loadManifest inh rd parse base k = Inr h}
   \<and> (rd (manifest_path base k) = None \<longrightarrow> loadManifest inh rd parse base k = Inl FileError)
   \<and> (rd (manifest_path base k) = Some t \<and> parse t = None
      \<longrightarrow> loadManifest inh rd parse base k = Inl SyntaxError)
   \<and> (rd (manifest_path base k) = Some t \<and> parse t = Some obj
       \<and> (getHash inh ''bundle'' ''js'' obj = Inl e \<or> getHash inh ''styles'' ''css'' obj = Inl e
          \<or> getHash inh ''vendor'' ''js'' obj = Inl e \<or> getHash inh ''vendor'' ''css'' obj = Inl e)
      \<longrightarrow> (\<exists>e'. loadManifest inh rd parse base k = Inl e'))
   \<and> table (startup inh rd parse env_static dirname port ls)
      = srcHashes_of inh rd parse (static_root env_static dirname) ls
   \<and> console (startup inh rd parse env_static dirname port ls)
      = bootstrap_warnings inh rd parse (static_root env_static dirname) ls @ [Listening port]
   \<and> listening (startup inh rd parse env_static dirname port ls)"
proof (intro conjI impI)
  assume a: "k \<in> set ls \<and> loadManifest inh rd parse base k = Inl e"
  then show "srcHashes_of inh rd parse base ls k = None"
    by (auto simp: srcHashes_of_None)
  from a show "Warn k e \<in> set (bootstrap_warnings inh rd parse base ls)"
    by (auto simp: bootstrap_warnings_set)
next
  assume "k \<in> set ls \<and> loadManifest inh rd parse base k = Inr h"
  then show "srcHashes_of inh rd parse base ls k = Some h"
    by (simp add: srcHashes_of_Some)
next
  show "dom (srcHashes_of inh rd parse base ls)
        = {k \<in> set ls. \<exists>h. loadManifest inh rd parse base k = Inr h}"
    by (auto simp: dom_def srcHashes_of_Some)
next
  assume "rd (manifest_path base k) = None"
  then show "loadManifest inh rd parse base k = Inl FileError"
    by (rule loadManifest_failures)
next
  assume "rd (manifest_path base k) = Some t \<and> parse t = None"
  then show "loadManifest inh rd parse base k = Inl SyntaxError"
    by (simp add: loadManifest_failures)
next
  assume "rd (manifest_path base k) = Some t \<and> parse t = Some obj
       \<and> (getHash inh ''bundle'' ''js'' obj = Inl e \<or> getHash inh ''styles'' ''css'' obj = Inl e
          \<or> getHash inh ''vendor'' ''js'' obj = Inl e \<or> getHash inh ''vendor'' ''css'' obj = Inl e)"
  then show "\<exists>e'. loadManifest inh rd parse base k = Inl e'"
    using loadManifest_failures(3) [of rd base k t parse obj inh e] by blast
qed (simp_all add: startup_fields)

lemma sample_load_en:
  "loadManifest inh sample_disk sample_parse ''/srv/public'' ''en'' = Inr sample_hashes"
  by (simp add: loadManifest_def manifest_path_def sample_disk_def sample_parse_def
      sample_manifest_def sample_hashes_def getHash_def strip_name_def matches_ext_def
      suffix_to_prefix)

lemma sample_load_fr:
  "loadManifest inh sample_disk sample_parse ''/srv/public'' ''fr'' = Inl FileError"
  by (simp add: loadManifest_def manifest_path_def sample_disk_def)

text \<open>The theorem on a disk that holds the manifest of \<open>en\<close> and none for \<open>fr\<close>.\<close>

theorem srcHashes_skips_failed_manifests_witness:
  "''fr'' \<in> set [''en'', ''fr'']
   \<and> loadManifest sample_runtime sample_disk sample_parse ''/srv/public'' ''fr'' = Inl FileError
   \<and> srcHashes_of sample_runtime sample_disk sample_parse ''/srv/public'' [''en'', ''fr''] ''fr'' = None
   \<and> Warn ''fr'' FileError
        \<in> set (bootstrap_warnings sample_runtime sample_disk sample_parse ''/srv/public'' [''en'', ''fr''])
   \<and> ''en'' \<in> set [''en'', ''fr'']
   \<and> loadManifest sample_runtime sample_disk sample_parse ''/srv/public'' ''en'' = Inr sample_hashes
   \<and> srcHashes_of sample_runtime sample_disk sample_parse ''/srv/public'' [''en'', ''fr''] ''en''
      = Some sample_hashes"
proof -
  have m: "''fr'' \<in> set [''en'', ''fr'']" "''en'' \<in> set [''en'', ''fr'']" by simp_all
  have fr: "srcHashes_of sample_runtime sample_disk sample_parse ''/srv/public'' [''en'', ''fr''] ''fr'' = None
     \<and> Warn ''fr'' FileError
        \<in> set (bootstrap_warnings sample_runtime sample_disk sample_parse ''/srv/public'' [''en'', ''fr''])"
    using srcHashes_skips_failed_manifests
      [of "''fr''" "[''en'', ''fr'']" sample_runtime sample_disk sample_parse "''/srv/public''" FileError]
      m(1) sample_load_fr by blast
  have en: "srcHashes_of sample_runtime sample_disk sample_parse ''/srv/public'' [''en'', ''fr''] ''en''
      = Some sample_hashes"
    using srcHashes_skips_failed_manifests
      [of "''en''" "[''en'', ''fr'']" sample_runtime sample_disk sample_parse "''/srv/public''" _ sample_hashes]
      m(2) sample_load_en by blast
  from m fr en sample_load_fr sample_load_en show ?thesis by blast
qed

section \<open>The API redirect\<close>








section \<open>Source-map gate, translation fallback, alternate URLs\<close>

lemma sourceMapGate_denies_iff:
  "sourceMapGate req = Json 401 [(''error'', ''unauthorized'')]
   \<longleftrightarrow> (\<exists>ip. map_of (headers req) ''x-forwarded-for'' = Some ip \<and> ip \<in> set sentry_addresses)"
  by (auto simp: sourceMapGate_def split: option.splits)

lemma sourceMapGate_passes_iff:
  "sourceMapGate req = Next
   \<longleftrightarrow> \<not> (\<exists>ip. map_of (headers req) ''x-forwarded-for'' = Some ip \<and> ip \<in> set sentry_addresses)"
  by (auto simp: sourceMapGate_def split: option.splits)

lemma dist_map_path_routes:
  assumes "map lower_char p = CHR ''/'' # CHR ''d'' # r"
  shows "\<not> route_exact ''/health'' p" "\<not> route_exact ''/clientVersion'' p"
    "\<not> route_exact ''/translationstatus/badges.svg'' p"
    "\<not> route_exact ''/translationstatus'' p" "\<not> route_language p"
    "\<not> route_star ''/v1/'' p" "\<not> route_star ''/v2/'' p"
  using assms by (simp_all add: route_exact_def route_language_def route_star_def lower_char_def)

text \<open>
  Claim C1 (the code differs). The addresses in the list are answered with 401 and
  every other request passes on to the static files: the test \<open>!== -1\<close> is the
  reverse of what the comment \<open>Allow sentry\<close> and the claim say.
\<close>

theorem sourceMapGate_rejects_listed_address:
  "sourceMapGate sentry_map_request = Json 401 [(''error'', ''unauthorized'')]
   \<and> app st env ext sentry_map_request = Json 401 [(''error'', ''unauthorized'')]
   \<and> sourceMapGate visitor_map_request = Next"
proof (intro conjI)
  show g: "sourceMapGate sentry_map_request = Json 401 [(''error'', ''unauthorized'')]"
    by (simp add: sourceMapGate_def sentry_map_request_def sentry_addresses_def)
  show "sourceMapGate visitor_map_request = Next"
    by (simp add: sourceMapGate_def visitor_map_request_def sentry_addresses_def)
  have p: "url_path (originalUrl sentry_map_request) = ''/dist/bundle.abc123.js.map''"
    by (simp add: sentry_map_request_def url_path_def)
  have m: "map lower_char (url_path (originalUrl sentry_map_request))
           = CHR ''/'' # CHR ''d'' # ''ist/bundle.abc123.js.map''"
    unfolding p by (simp add: lower_char_def)
  have d: "route_dist_map (url_path (originalUrl sentry_map_request))"
    unfolding p by (simp add: route_dist_map_def lower_char_def suffix_to_prefix)
  show "app st env ext sentry_map_request = Json 401 [(''error'', ''unauthorized'')]"
    using d g dist_map_path_routes [OF m] by (simp add: app_def Let_def)
qed

lemma walk_returns:
  assumes "\<And>j k. \<exists>r. inh j k = Inr r"
  shows "\<exists>r. walk inh v ks = Inr r"
proof (induction ks arbitrary: v)
  case Nil
  show ?case by simp
next
  case (Cons k ks)
  show ?case
  proof (cases "v = None \<or> v = Some JNull")
    case True
    then show ?thesis by auto
  next
    case False
    then obtain j where j: "v = Some j" "j \<noteq> JNull" by auto
    have "\<exists>r. get_prop inh v k = Inr r"
    proof (cases "own_prop j k")
      case None
      with j assms [of j k] show ?thesis by (simp add: get_prop_inherited)
    next
      case (Some r)
      with j show ?thesis by (simp add: get_prop_own)
    qed
    then obtain r where "get_prop inh v k = Inr r" by blast
    with False Cons [of r] show ?thesis by simp
  qed
qed

lemma translate_fallback:
  assumes "loc \<noteq> ''en''" "walk inh (cfgs loc) (str_split CHR ''.'' k) = Inr r" "\<not> truthy r"
  shows "translateWithLocale inh vs cfgs loc k args = translateWithLocale inh vs cfgs ''en'' k []"
  using assms by (subst translateWithLocale.simps) simp

lemma translate_absent_in_default:
  assumes "walk inh (cfgs ''en'') (str_split CHR ''.'' k) = Inr r" "\<not> truthy r"
  shows "translateWithLocale inh vs cfgs ''en'' k args = Inr r"
  using assms by (subst translateWithLocale.simps) (auto split: option.splits)

lemma translate_direct:
  assumes "walk inh (cfgs loc) (str_split CHR ''.'' k) = Inr (Some v)" "truthy (Some v)"
  shows "translateWithLocale inh vs cfgs loc k args
         = (case vs v args of Inl e \<Rightarrow> Inl e | Inr s \<Rightarrow> Inr (Some (JStr s)))"
  using assms by (subst translateWithLocale.simps) simp

lemma inherited_keys:
  "translateWithLocale sample_runtime vs sample_translations ''en'' ''toString'' args
     = (case vs (JNative ''Object.prototype.toString'') args of
          Inl e \<Rightarrow> Inl e | Inr s \<Rightarrow> Inr (Some (JStr s)))"
  "translateWithLocale sample_runtime vs sample_translations ''fr'' ''constructor.name'' args
     = (case vs (JStr ''Object'') args of Inl e \<Rightarrow> Inl e | Inr s \<Rightarrow> Inr (Some (JStr s)))"
proof -
  have a: "walk sample_runtime (sample_translations ''en'') (str_split CHR ''.'' ''toString'')
           = Inr (Some (JNative ''Object.prototype.toString''))"
    by (simp add: sample_translations_def sample_runtime_def object_prototype_names_def)
  show "translateWithLocale sample_runtime vs sample_translations ''en'' ''toString'' args
     = (case vs (JNative ''Object.prototype.toString'') args of
          Inl e \<Rightarrow> Inl e | Inr s \<Rightarrow> Inr (Some (JStr s)))"
    by (rule translate_direct
        [where inh = sample_runtime and loc = "''en''" and cfgs = sample_translations
           and k = "''toString''", OF a])
      simp
  have b: "walk sample_runtime (sample_translations ''fr'')
             (str_split CHR ''.'' ''constructor.name'')
           = Inr (Some (JStr ''Object''))"
    by (simp add: sample_translations_def sample_runtime_def object_prototype_names_def)
  show "translateWithLocale sample_runtime vs sample_translations ''fr'' ''constructor.name'' args
     = (case vs (JStr ''Object'') args of Inl e \<Rightarrow> Inl e | Inr s \<Rightarrow> Inr (Some (JStr s)))"
    by (rule translate_direct
        [where inh = sample_runtime and loc = "''fr''" and cfgs = sample_translations
           and k = "''constructor.name''", OF b])
      simp
qed

text \<open>
  Claim C2 (the code differs). The key \<open>greeting\<close> is missing in \<open>fr\<close>, is not an
  inherited property either, and is \<open>"Hello %s"\<close> in \<open>en\<close>. The lookup in \<open>fr\<close> with
  the format argument \<open>x\<close> falls back to \<open>en\<close>, but formats the template with the empty
  argument list, whereas the same lookup made in \<open>en\<close> formats it with \<open>x\<close>.
\<close>

theorem translateWithLocale_fallback_drops_arguments:
  "translateWithLocale sample_runtime vsprintf sample_translations ''fr'' ''greeting'' [x]
     = (case vsprintf (JStr ''Hello %s'') [] of Inl e \<Rightarrow> Inl e | Inr s \<Rightarrow> Inr (Some (JStr s)))
   \<and> translateWithLocale sample_runtime vsprintf sample_translations ''en'' ''greeting'' [x]
     = (case vsprintf (JStr ''Hello %s'') [x] of Inl e \<Rightarrow> Inl e | Inr s \<Rightarrow> Inr (Some (JStr s)))"
proof
  have fr: "walk sample_runtime (sample_translations ''fr'') (str_split CHR ''.'' ''greeting'') = Inr None"
    by (simp add: sample_translations_def sample_runtime_def object_prototype_names_def)
  have en: "walk sample_runtime (sample_translations ''en'') (str_split CHR ''.'' ''greeting'')
            = Inr (Some (JStr ''Hello %s''))"
    by (simp add: sample_translations_def sample_runtime_def object_prototype_names_def)
  have "translateWithLocale sample_runtime vsprintf sample_translations ''fr'' ''greeting'' [x]
        = translateWithLocale sample_runtime vsprintf sample_translations ''en'' ''greeting'' []"
    by (rule translate_fallback
        [where inh = sample_runtime and loc = "''fr''" and cfgs = sample_translations and k = "''greeting''", OF _ fr])
      simp_all
  also have "\<dots> = (case vsprintf (JStr ''Hello %s'') [] of
                      Inl e \<Rightarrow> Inl e | Inr s \<Rightarrow> Inr (Some (JStr s)))"
    by (rule translate_direct
        [where inh = sample_runtime and loc = "''en''" and cfgs = sample_translations and k = "''greeting''", OF en])
      simp
  finally show "translateWithLocale sample_runtime vsprintf sample_translations ''fr'' ''greeting'' [x]
     = (case vsprintf (JStr ''Hello %s'') [] of Inl e \<Rightarrow> Inl e | Inr s \<Rightarrow> Inr (Some (JStr s)))" .
  show "translateWithLocale sample_runtime vsprintf sample_translations ''en'' ''greeting'' [x]
     = (case vsprintf (JStr ''Hello %s'') [x] of Inl e \<Rightarrow> Inl e | Inr s \<Rightarrow> Inr (Some (JStr s)))"
    by (rule translate_direct
        [where inh = sample_runtime and loc = "''en''" and cfgs = sample_translations and k = "''greeting''", OF en])
      simp
qed

lemma alternateUrl_examples:
  "alternateUrl (canonical @ ''/?foo=1'') [(''foo'', QStr ''1'')] ''de''
     = ''https://www.electricitymap.org/?foo=1&lang=de''"
  "alternateUrl (canonical @ ''/?lang=en'') [(''lang'', QStr ''en'')] ''de''
     = ''https://www.electricitymap.org/?lang=de''"
  "alternateUrl (canonical @ ''/'') [] ''de'' = ''https://www.electricitymap.org/?lang=de''"
  by (simp_all add: alternateUrl_def canonical_def str_indexOf_def to_string_def)

text \<open>
  Claim C3 (the code differs). The URL \<open>/?language=fr\<close> has no \<open>lang\<close> parameter and
  has another query parameter, so the alternate URL for \<open>de\<close> should end in
  \<open>&lang=de\<close>. The code tests whether the text \<open>lang\<close> occurs anywhere in the URL; it
  does, inside \<open>language\<close>, the replacement of \<open>lang=undefined\<close> finds nothing, and the
  URL comes back unchanged, the same for every locale.
\<close>

theorem alternateUrl_keeps_url_with_language_parameter:
  "alternateUrl (canonical @ ''/?language=fr'') [(''language'', QStr ''fr'')] ''de''
     = ''https://www.electricitymap.org/?language=fr''
   \<and> map (alternateUrl (canonical @ ''/?language=fr'') [(''language'', QStr ''fr'')])
         [''en'', ''de'']
     = [''https://www.electricitymap.org/?language=fr'',
        ''https://www.electricitymap.org/?language=fr'']"
  by (simp add: alternateUrl_def canonical_def str_indexOf_def to_string_def)

section \<open>The catch-all handler: redirect, access gate, render\<close>

lemma render_cases:
  "srcHashes st loc = None \<Longrightarrow> render st req loc cs = Throw TypeError"
  "srcHashes st loc = Some hs \<Longrightarrow>
     render st req loc cs =
       Render cs
         \<lparr>alternateUrls = map (alternateUrl (canonical @ originalUrl req) (query req)) (locales st),
          bundleHash = BUNDLE_HASH hs, vendorHash = VENDOR_HASH hs,
          stylesHash = STYLES_HASH hs, vendorStylesHash = VENDOR_STYLES_HASH hs,
          fullUrl = canonical @ originalUrl req, view_locale = loc,
          supportedLocales = locales st, FBLocale = localeToFacebookLocale st loc,
          supportedFBLocales = supportedFacebookLocales st\<rparr>"
  by (simp_all add: render_def Let_def)

lemma render_not_send: "render st req loc cs \<noteq> Send c hs b"
  by (cases "srcHashes st loc") (simp_all add: render_cases)

lemma render_not_redirect: "render st req loc cs \<noteq> Redirect c u"
  by (cases "srcHashes st loc") (simp_all add: render_cases)

lemma catchAll_redirect:
  "map_of (headers req) ''host'' = Some h \<Longrightarrow> redirects h req
   \<Longrightarrow> catchAll st env req = Redirect 301 (canonical @ originalUrl req)"
  by (simp add: catchAll_def)

lemma catchAll_continue:
  "map_of (headers req) ''host'' = Some h \<Longrightarrow> \<not> redirects h req
   \<Longrightarrow> resolveLocale st req = Inr loc
   \<Longrightarrow> catchAll st env req =
       (case accessGate env req of
          Denied \<Rightarrow> denial
        | Granted cookies \<Rightarrow> render st req loc cookies)"
  by (simp add: catchAll_def)

lemma catchAll_not_redirect:
  assumes "map_of (headers req) ''host'' = Some h" "\<not> redirects h req"
  shows "catchAll st env req \<noteq> Redirect c u"
  using assms
  by (auto simp: catchAll_def denial_def render_not_redirect split: sum.splits gate.splits)

lemma authorized_iff:
  "authorized creds (Some (name, pass))
   \<longleftrightarrow> (\<exists>cred \<in> set (str_split CHR '','' creds). cred_pair cred = (name, Some pass))"
  by (auto simp: authorized_def list_ex_iff cred_matches_def prod_eq_iff)

lemma accessGate_unset:
  "BASIC_AUTH_CREDENTIALS env = None \<Longrightarrow> accessGate env req = Granted []"
  by (simp add: accessGate_def)

lemma catchAll_never_denies_unset:
  assumes "BASIC_AUTH_CREDENTIALS env = None"
  shows "catchAll st env req \<noteq> Send c hs b"
  using assms
  by (auto simp: catchAll_def accessGate_unset render_not_send split: option.splits sum.splits)

lemma accessGate_set:
  assumes "BASIC_AUTH_CREDENTIALS env = Some creds" "creds \<noteq> []"
  shows "accessGate env req =
     (if authorized creds (credentials req)
      then Granted [(''electricitymap-token'', ELECTRICITYMAP_TOKEN env)] else Denied)"
  using assms by (simp add: accessGate_def)

lemma resolveLocale_yields:
  "(\<forall>s. map_of (query req) ''fb_locale'' \<noteq> Some (QOther s))
   \<longleftrightarrow> (\<exists>l. resolveLocale st req = Inr l)"
  by (auto simp: resolveLocale_def split: option.splits qval.splits)

lemma resolveLocale_raises:
  "map_of (query req) ''fb_locale'' = Some (QOther s) \<Longrightarrow> resolveLocale st req = Inl TypeError"
  by (simp add: resolveLocale_def)

lemma accessGate_empty:
  "BASIC_AUTH_CREDENTIALS env = Some [] \<Longrightarrow> accessGate env req = Granted []"
  by (simp add: accessGate_def)

lemma catchAll_never_denies_empty:
  assumes "BASIC_AUTH_CREDENTIALS env = Some []"
  shows "catchAll st env req \<noteq> Send c hs b"
  using assms
  by (auto simp: catchAll_def accessGate_empty render_not_send split: option.splits sum.splits)

lemma sample_reach:
  "map_of (headers alice_request) ''host'' = Some ''www.electricitymap.org''"
  "\<not> redirects ''www.electricitymap.org'' alice_request"
  "resolveLocale sample_app alice_request = Inr ''en''"
  "map_of (headers mallory_request) ''host'' = Some ''www.electricitymap.org''"
  "\<not> redirects ''www.electricitymap.org'' mallory_request"
  "resolveLocale sample_app mallory_request = Inr ''en''"
  by (simp_all add: alice_request_def mallory_request_def redirects_def isNonWWW_def
      isTmrowCo_def isStaging_def str_indexOf_def resolveLocale_def)

lemma sample_hash_en: "srcHashes sample_app ''en'' = Some sample_hashes"
  by (simp add: sample_app_def)

lemma crawler_facts:
  "map_of (headers crawler_request) ''host'' = Some ''electricitymap.org''"
  "isNonWWW ''electricitymap.org''"
  "\<not> isStaging ''electricitymap.org''"
  "str_indexOf (user_agent crawler_request) ''facebookexternalhit'' \<noteq> - 1"
  "resolveLocale sample_app crawler_request = Inr ''en''"
  "srcHashes sample_app ''en'' = Some sample_hashes"
  by (simp_all add: crawler_request_def isNonWWW_def isStaging_def user_agent_def
      str_indexOf_def resolveLocale_def sample_app_def)

lemma browser_facts:
  "map_of (headers browser_request) ''host'' = Some ''electricitymap.org''"
  "str_indexOf (user_agent browser_request) ''facebookexternalhit'' = - 1"
  "originalUrl browser_request = ''/map?solar=true''"
  by (simp_all add: browser_request_def user_agent_def str_indexOf_def)

text \<open>
  Claim C4, as stated, fails for a request that does not reach the gate: with a
  credential list configured, a browser's request to \<open>electricitymap.org\<close> without
  credentials is answered by the canonical-host redirect, which comes first, and not
  with a 401.
\<close>

theorem accessGate_basic_auth_counterexample:
  "BASIC_AUTH_CREDENTIALS premium_env = Some ''alice:secret''
   \<and> credentials browser_request = None
   \<and> catchAll sample_app premium_env browser_request
      = Redirect 301 ''https://www.electricitymap.org/map?solar=true''"
proof -
  have r: "redirects ''electricitymap.org'' browser_request"
    using browser_facts(2) crawler_facts(2,3) by (simp add: redirects_def)
  have "catchAll sample_app premium_env browser_request
        = Redirect 301 ''https://www.electricitymap.org/map?solar=true''"
    by (simp add: catchAll_redirect [OF browser_facts(1) r] canonical_def browser_facts(3))
  then show ?thesis by (simp add: premium_env_def browser_request_def)
qed

text \<open>
  Claim C4, amended. When \<open>BASIC_AUTH_CREDENTIALS\<close> is unset or empty the gate grants
  access and the handler never answers with a 401. When it is set, consider a request
  that reaches the gate: its host \<open>h\<close> is not answered by the canonical-host redirect,
  and its locale override yields a locale \<open>loc\<close>, which it does whenever \<open>fb_locale\<close> is
  absent or a string. A configured pair is an entry of the comma-separated list split
  at its colons, the name being the first part and the password the second (so a
  password is cut at a second colon). If the Basic-Auth name and password equal some
  configured pair, the gate sets the cookie \<open>electricitymap-token\<close> to
  \<open>ELECTRICITYMAP_TOKEN\<close>, and when the locale has an asset-hash record the page is
  rendered with that cookie and the view model of the render step. If the credentials
  are absent or equal no configured pair, the answer is 401 with the
  \<open>WWW-Authenticate\<close> challenge and the body \<open>Access denied\<close>, and nothing else.
\<close>

theorem accessGate_basic_auth_reached:
  "(BASIC_AUTH_CREDENTIALS env = None \<or> BASIC_AUTH_CREDENTIALS env = Some []
      \<longrightarrow> accessGate env req = Granted [] \<and> (\<forall>hs b. catchAll st env req \<noteq> Send 401 hs b))
   \<and> ((\<forall>s. map_of (query req) ''fb_locale'' \<noteq> Some (QOther s))
      \<longrightarrow> (\<exists>l. resolveLocale st req = Inr l))
   \<and> (BASIC_AUTH_CREDENTIALS env = Some creds \<and> creds \<noteq> []
       \<and> credentials req = Some (name, pass)
       \<and> cred \<in> set (str_split CHR '','' creds) \<and> cred_pair cred = (name, Some pass)
      \<longrightarrow> accessGate env req = Granted [(''electricitymap-token'', ELECTRICITYMAP_TOKEN env)]
          \<and> (map_of (headers req) ''host'' = Some h \<and> \<not> redirects h req
              \<and> resolveLocale st req = Inr loc \<and> srcHashes st loc = Some hs
             \<longrightarrow> catchAll st env req
                 = Render [(''electricitymap-token'', ELECTRICITYMAP_TOKEN env)]
                     \<lparr>alternateUrls =
                        map (alternateUrl (''https://www.electricitymap.org'' @ originalUrl req)
                               (query req)) (locales st),
                      bundleHash = BUNDLE_HASH hs, vendorHash = VENDOR_HASH hs,
                      stylesHash = STYLES_HASH hs, vendorStylesHash = VENDOR_STYLES_HASH hs,
                      fullUrl = ''https://www.electricitymap.org'' @ originalUrl req,
                      view_locale = loc, supportedLocales = locales st,
                      FBLocale = localeToFacebookLocale st loc,
                      supportedFBLocales = supportedFacebookLocales st\<rparr>))
   \<and> (BASIC_AUTH_CREDENTIALS env = Some creds \<and> creds \<noteq> []
       \<and> (credentials req = None
           \<or> (\<exists>n p. credentials req = Some (n, p)
                  \<and> (\<forall>c \<in> set (str_split CHR '','' creds). cred_pair c \<noteq> (n, Some p))))
      \<longrightarrow> accessGate env req = Denied
          \<and> (map_of (headers req) ''host'' = Some h \<and> \<not> redirects h req
              \<and> resolveLocale st req = Inr loc
             \<longrightarrow> catchAll st env req
                 = Send 401 [(''WWW-Authenticate'', challenge)] ''Access denied''))"
proof (intro conjI impI allI)
  assume "BASIC_AUTH_CREDENTIALS env = None \<or> BASIC_AUTH_CREDENTIALS env = Some []"
  then show "accessGate env req = Granted []"
    by (auto simp: accessGate_unset accessGate_empty)
next
  fix hs b
  assume "BASIC_AUTH_CREDENTIALS env = None \<or> BASIC_AUTH_CREDENTIALS env = Some []"
  then show "catchAll st env req \<noteq> Send 401 hs b"
    by (auto simp: catchAll_never_denies_unset catchAll_never_denies_empty)
next
  assume "\<forall>s. map_of (query req) ''fb_locale'' \<noteq> Some (QOther s)"
  then show "\<exists>l. resolveLocale st req = Inr l"
    using resolveLocale_yields [of req st] by blast
next
  assume a: "BASIC_AUTH_CREDENTIALS env = Some creds \<and> creds \<noteq> []
       \<and> credentials req = Some (name, pass)
       \<and> cred \<in> set (str_split CHR '','' creds) \<and> cred_pair cred = (name, Some pass)"
  then have "authorized creds (credentials req)" by (auto simp: authorized_iff)
  with a show g: "accessGate env req
                  = Granted [(''electricitymap-token'', ELECTRICITYMAP_TOKEN env)]"
    by (simp add: accessGate_set)
  assume b: "map_of (headers req) ''host'' = Some h \<and> \<not> redirects h req
          \<and> resolveLocale st req = Inr loc \<and> srcHashes st loc = Some hs"
  then have "catchAll st env req
             = render st req loc [(''electricitymap-token'', ELECTRICITYMAP_TOKEN env)]"
    by (simp add: catchAll_continue [of req h st loc env] g)
  with b show "catchAll st env req
                 = Render [(''electricitymap-token'', ELECTRICITYMAP_TOKEN env)]
                     \<lparr>alternateUrls =
                        map (alternateUrl (''https://www.electricitymap.org'' @ originalUrl req)
                               (query req)) (locales st),
                      bundleHash = BUNDLE_HASH hs, vendorHash = VENDOR_HASH hs,
                      stylesHash = STYLES_HASH hs, vendorStylesHash = VENDOR_STYLES_HASH hs,
                      fullUrl = ''https://www.electricitymap.org'' @ originalUrl req,
                      view_locale = loc, supportedLocales = locales st,
                      FBLocale = localeToFacebookLocale st loc,
                      supportedFBLocales = supportedFacebookLocales st\<rparr>"
    by (simp add: render_cases(2) canonical_def)
next
  assume a: "BASIC_AUTH_CREDENTIALS env = Some creds \<and> creds \<noteq> []
       \<and> (credentials req = None
           \<or> (\<exists>n p. credentials req = Some (n, p)
                  \<and> (\<forall>c \<in> set (str_split CHR '','' creds). cred_pair c \<noteq> (n, Some p))))"
  have "\<not> authorized creds (credentials req)"
  proof (cases "credentials req")
    case None
    then show ?thesis by (simp add: authorized_def)
  next
    case (Some u)
    with a obtain n p where np: "credentials req = Some (n, p)"
      "\<forall>c \<in> set (str_split CHR '','' creds). cred_pair c \<noteq> (n, Some p)"
      by auto
    then show ?thesis by (simp add: authorized_iff)
  qed
  with a show g: "accessGate env req = Denied" by (simp add: accessGate_set)
  assume "map_of (headers req) ''host'' = Some h \<and> \<not> redirects h req
          \<and> resolveLocale st req = Inr loc"
  then show "catchAll st env req
             = Send 401 [(''WWW-Authenticate'', challenge)] ''Access denied''"
    by (simp add: catchAll_continue [of req h st loc env] g denial_def)
qed

text \<open>
  The amended statement with the credential list \<open>alice:secret\<close>: \<open>alice\<close> with
  \<open>secret\<close> is rendered the page with the cookie, \<open>mallory\<close> gets the challenge; without
  a credential list the gate is open.
\<close>

theorem accessGate_basic_auth_reached_witness:
  "BASIC_AUTH_CREDENTIALS open_env = None
   \<and> accessGate open_env mallory_request = Granted []
   \<and> BASIC_AUTH_CREDENTIALS premium_env = Some ''alice:secret''
   \<and> credentials alice_request = Some (''alice'', ''secret'')
   \<and> ''alice:secret'' \<in> set (str_split CHR '','' ''alice:secret'')
   \<and> cred_pair ''alice:secret'' = (''alice'', Some ''secret'')
   \<and> map_of (headers alice_request) ''host'' = Some ''www.electricitymap.org''
   \<and> \<not> redirects ''www.electricitymap.org'' alice_request
   \<and> resolveLocale sample_app alice_request = Inr ''en''
   \<and> srcHashes sample_app ''en'' = Some sample_hashes
   \<and> accessGate premium_env alice_request = Granted [(''electricitymap-token'', Some ''token'')]
   \<and> catchAll sample_app premium_env alice_request
      = Render [(''electricitymap-token'', Some ''token'')]
          \<lparr>alternateUrls = [''https://www.electricitymap.org/?lang=en'',
                            ''https://www.electricitymap.org/?lang=fr'',
                            ''https://www.electricitymap.org/?lang=de''],
           bundleHash = ''abc123'', vendorHash = ''77aa88'',
           stylesHash = ''0a1b2c'', vendorStylesHash = ''99bb00'',
           fullUrl = ''https://www.electricitymap.org/'',
           view_locale = ''en'', supportedLocales = [''en'', ''fr'', ''de''],
           FBLocale = Some ''en_US'',
           supportedFBLocales = [''en_US'', ''fr_FR'', ''de_DE'']\<rparr>
   \<and> credentials mallory_request = Some (''mallory'', ''guess'')
   \<and> accessGate premium_env mallory_request = Denied
   \<and> catchAll sample_app premium_env mallory_request
      = Send 401 [(''WWW-Authenticate'', challenge)] ''Access denied''"
proof -
  have e1: "BASIC_AUTH_CREDENTIALS open_env = None" by (simp add: open_env_def)
  have e2: "BASIC_AUTH_CREDENTIALS premium_env = Some ''alice:secret''"
    and e3: "ELECTRICITYMAP_TOKEN premium_env = Some ''token''"
    by (simp_all add: premium_env_def)
  have c1: "credentials alice_request = Some (''alice'', ''secret'')"
    by (simp add: alice_request_def)
  have c2: "credentials mallory_request = Some (''mallory'', ''guess'')"
    by (simp add: mallory_request_def)
  have s1: "''alice:secret'' \<in> set (str_split CHR '','' ''alice:secret'')" by simp
  have s2: "cred_pair ''alice:secret'' = (''alice'', Some ''secret'')"
    by (simp add: cred_pair_def)
  have s3: "\<forall>c \<in> set (str_split CHR '','' ''alice:secret'').
              cred_pair c \<noteq> (''mallory'', Some ''guess'')"
    by (simp add: cred_pair_def)
  have ne: "''alice:secret'' \<noteq> []" by simp
  have w1: "accessGate open_env mallory_request = Granted []"
    using accessGate_basic_auth_reached [of open_env mallory_request sample_app] e1 by blast
  have w2: "accessGate premium_env alice_request
              = Granted [(''electricitymap-token'', ELECTRICITYMAP_TOKEN premium_env)]
            \<and> catchAll sample_app premium_env alice_request
              = Render [(''electricitymap-token'', ELECTRICITYMAP_TOKEN premium_env)]
                     \<lparr>alternateUrls =
                        map (alternateUrl (''https://www.electricitymap.org'' @ originalUrl alice_request)
                               (query alice_request)) (locales sample_app),
                      bundleHash = BUNDLE_HASH sample_hashes, vendorHash = VENDOR_HASH sample_hashes,
                      stylesHash = STYLES_HASH sample_hashes,
                      vendorStylesHash = VENDOR_STYLES_HASH sample_hashes,
                      fullUrl = ''https://www.electricitymap.org'' @ originalUrl alice_request,
                      view_locale = ''en'', supportedLocales = locales sample_app,
                      FBLocale = localeToFacebookLocale sample_app ''en'',
                      supportedFBLocales = supportedFacebookLocales sample_app\<rparr>"
    using accessGate_basic_auth_reached [of premium_env alice_request sample_app
        "''alice:secret''" "''alice''" "''secret''" "''alice:secret''"
        "''www.electricitymap.org''" "''en''" sample_hashes]
      e2 ne c1 s1 s2 sample_reach(1,2,3) sample_hash_en by blast
  have v: "map (alternateUrl (''https://www.electricitymap.org'' @ originalUrl alice_request)
                  (query alice_request)) (locales sample_app)
           = [''https://www.electricitymap.org/?lang=en'',
              ''https://www.electricitymap.org/?lang=fr'',
              ''https://www.electricitymap.org/?lang=de'']"
    "originalUrl alice_request = ''/''"
    "locales sample_app = [''en'', ''fr'', ''de'']"
    "localeToFacebookLocale sample_app ''en'' = Some ''en_US''"
    "supportedFacebookLocales sample_app = [''en_US'', ''fr_FR'', ''de_DE'']"
    "BUNDLE_HASH sample_hashes = ''abc123''" "VENDOR_HASH sample_hashes = ''77aa88''"
    "STYLES_HASH sample_hashes = ''0a1b2c''" "VENDOR_STYLES_HASH sample_hashes = ''99bb00''"
    by (simp_all add: alice_request_def sample_app_def sample_hashes_def alternateUrl_def
        str_indexOf_def)
  have u: "alternateUrl ''https://www.electricitymap.org/'' (query alice_request) l
           = ''https://www.electricitymap.org/?lang='' @ l" for l
    by (simp add: alternateUrl_def str_indexOf_def alice_request_def)
  have w2': "accessGate premium_env alice_request = Granted [(''electricitymap-token'', Some ''token'')]
    \<and> catchAll sample_app premium_env alice_request
      = Render [(''electricitymap-token'', Some ''token'')]
          \<lparr>alternateUrls = [''https://www.electricitymap.org/?lang=en'',
                            ''https://www.electricitymap.org/?lang=fr'',
                            ''https://www.electricitymap.org/?lang=de''],
           bundleHash = ''abc123'', vendorHash = ''77aa88'',
           stylesHash = ''0a1b2c'', vendorStylesHash = ''99bb00'',
           fullUrl = ''https://www.electricitymap.org/'',
           view_locale = ''en'', supportedLocales = [''en'', ''fr'', ''de''],
           FBLocale = Some ''en_US'',
           supportedFBLocales = [''en_US'', ''fr_FR'', ''de_DE'']\<rparr>"
    using w2 by (simp add: v u e3)
  have w3: "accessGate premium_env mallory_request = Denied
            \<and> catchAll sample_app premium_env mallory_request
              = Send 401 [(''WWW-Authenticate'', challenge)] ''Access denied''"
    using accessGate_basic_auth_reached [of premium_env mallory_request sample_app
        "''alice:secret''" _ _ _ "''www.electricitymap.org''" "''en''"]
      e2 ne c2 s3 sample_reach(4,5,6) by blast
  from e1 w1 e2 c1 s1 s2 sample_reach(1,2,3) sample_hash_en w2' c2 w3 show ?thesis by blast
qed

text \<open>
  Claim C5, as stated, fails: with a credential list configured, the crawler's request
  to \<open>electricitymap.org\<close> is not redirected, but it carries no credentials and is
  answered with the 401 challenge, not with rendered content.
\<close>

theorem canonical_redirect_counterexample:
  "map_of (headers crawler_request) ''host'' = Some ''electricitymap.org''
   \<and> isNonWWW ''electricitymap.org''
   \<and> \<not> isStaging ''electricitymap.org''
   \<and> str_indexOf (user_agent crawler_request) ''facebookexternalhit'' \<noteq> - 1
   \<and> catchAll sample_app premium_env crawler_request
      = Send 401 [(''WWW-Authenticate'', challenge)] ''Access denied''"
proof -
  have r: "\<not> redirects ''electricitymap.org'' crawler_request"
    using crawler_facts(4) by (simp add: redirects_def)
  have g: "accessGate premium_env crawler_request = Denied"
    by (simp add: accessGate_def premium_env_def crawler_request_def authorized_def)
  have "catchAll sample_app premium_env crawler_request
        = Send 401 [(''WWW-Authenticate'', challenge)] ''Access denied''"
    by (simp add: catchAll_continue [OF crawler_facts(1) r crawler_facts(5)] g denial_def)
  with crawler_facts(1-4) show ?thesis by blast
qed

text \<open>
  Claim C5, amended. A request whose host is \<open>electricitymap.org\<close>,
  \<open>live.electricitymap.org\<close> or contains \<open>electricitymap.tmrow\<close>, is not the staging
  host, and whose \<open>User-Agent\<close> does not contain \<open>facebookexternalhit\<close>, is answered
  with 301 to \<open>https://www.electricitymap.org\<close> followed by the original URL. The same
  request with a \<open>User-Agent\<close> containing \<open>facebookexternalhit\<close> is never redirected.
  When its locale override yields a locale, which it does whenever \<open>fb_locale\<close> is
  absent or a string, it goes on to the access gate: it receives the rendered page,
  with the view model of the render step, when the gate grants access and the locale
  has an asset-hash record, and the 401 challenge when the gate denies access.
\<close>

theorem canonical_redirect:
  "(map_of (headers req) ''host'' = Some h \<and> \<not> isStaging h \<and> (isNonWWW h \<or> isTmrowCo h)
      \<and> str_indexOf (user_agent req) ''facebookexternalhit'' = - 1
     \<longrightarrow> catchAll st env req = Redirect 301 (''https://www.electricitymap.org'' @ originalUrl req))
   \<and> (map_of (headers req) ''host'' = Some h
      \<and> str_indexOf (user_agent req) ''facebookexternalhit'' \<noteq> - 1
     \<longrightarrow> (\<forall>c u. catchAll st env req \<noteq> Redirect c u)
         \<and> ((\<forall>s. map_of (query req) ''fb_locale'' \<noteq> Some (QOther s))
            \<longrightarrow> (\<exists>l. resolveLocale st req = Inr l))
         \<and> (resolveLocale st req = Inr loc \<and> accessGate env req = Granted cs
             \<and> srcHashes st loc = Some hs
            \<longrightarrow> catchAll st env req
                = Render cs
                    \<lparr>alternateUrls =
                       map (alternateUrl (''https://www.electricitymap.org'' @ originalUrl req)
                              (query req)) (locales st),
                     bundleHash = BUNDLE_HASH hs, vendorHash = VENDOR_HASH hs,
                     stylesHash = STYLES_HASH hs, vendorStylesHash = VENDOR_STYLES_HASH hs,
                     fullUrl = ''https://www.electricitymap.org'' @ originalUrl req,
                     view_locale = loc, supportedLocales = locales st,
                     FBLocale = localeToFacebookLocale st loc,
                     supportedFBLocales = supportedFacebookLocales st\<rparr>)
         \<and> (resolveLocale st req = Inr loc \<and> accessGate env req = Denied
            \<longrightarrow> catchAll st env req
                = Send 401 [(''WWW-Authenticate'', challenge)] ''Access denied''))"
proof (intro conjI impI allI)
  assume "map_of (headers req) ''host'' = Some h \<and> \<not> isStaging h \<and> (isNonWWW h \<or> isTmrowCo h)
      \<and> str_indexOf (user_agent req) ''facebookexternalhit'' = - 1"
  then have "map_of (headers req) ''host'' = Some h" "redirects h req"
    by (simp_all add: redirects_def)
  then show "catchAll st env req = Redirect 301 (''https://www.electricitymap.org'' @ originalUrl req)"
    by (simp add: catchAll_redirect canonical_def)
next
  assume a: "map_of (headers req) ''host'' = Some h
      \<and> str_indexOf (user_agent req) ''facebookexternalhit'' \<noteq> - 1"
  then have h: "map_of (headers req) ''host'' = Some h" and r: "\<not> redirects h req"
    by (simp_all add: redirects_def)
  show "catchAll st env req \<noteq> Redirect c u" for c u
    using h r by (rule catchAll_not_redirect)
  {
    assume "\<forall>s. map_of (query req) ''fb_locale'' \<noteq> Some (QOther s)"
    then show "\<exists>l. resolveLocale st req = Inr l"
      using resolveLocale_yields [of req st] by blast
  }
  {
    assume b: "resolveLocale st req = Inr loc \<and> accessGate env req = Granted cs
             \<and> srcHashes st loc = Some hs"
    then have "catchAll st env req = render st req loc cs"
      by (simp add: catchAll_continue [OF h r])
    with b show "catchAll st env req
                = Render cs
                    \<lparr>alternateUrls =
                       map (alternateUrl (''https://www.electricitymap.org'' @ originalUrl req)
                              (query req)) (locales st),
                     bundleHash = BUNDLE_HASH hs, vendorHash = VENDOR_HASH hs,
                     stylesHash = STYLES_HASH hs, vendorStylesHash = VENDOR_STYLES_HASH hs,
                     fullUrl = ''https://www.electricitymap.org'' @ originalUrl req,
                     view_locale = loc, supportedLocales = locales st,
                     FBLocale = localeToFacebookLocale st loc,
                     supportedFBLocales = supportedFacebookLocales st\<rparr>"
      by (simp add: render_cases(2) canonical_def)
  }
  {
    assume "resolveLocale st req = Inr loc \<and> accessGate env req = Denied"
    then show "catchAll st env req
                = Send 401 [(''WWW-Authenticate'', challenge)] ''Access denied''"
      by (simp add: catchAll_continue [OF h r] denial_def)
  }
qed

text \<open>
  The amended statement at \<open>electricitymap.org/map?solar=true\<close>: a browser is
  redirected; the crawler is rendered the page when no credential list is configured,
  and gets the challenge when one is.
\<close>

theorem canonical_redirect_witness:
  "map_of (headers browser_request) ''host'' = Some ''electricitymap.org''
   \<and> \<not> isStaging ''electricitymap.org'' \<and> isNonWWW ''electricitymap.org''
   \<and> str_indexOf (user_agent browser_request) ''facebookexternalhit'' = - 1
   \<and> catchAll sample_app open_env browser_request
      = Redirect 301 ''https://www.electricitymap.org/map?solar=true''
   \<and> map_of (headers crawler_request) ''host'' = Some ''electricitymap.org''
   \<and> str_indexOf (user_agent crawler_request) ''facebookexternalhit'' \<noteq> - 1
   \<and> resolveLocale sample_app crawler_request = Inr ''en''
   \<and> accessGate open_env crawler_request = Granted []
   \<and> srcHashes sample_app ''en'' = Some sample_hashes
   \<and> catchAll sample_app open_env crawler_request
      = Render []
          \<lparr>alternateUrls = [''https://www.electricitymap.org/map?solar=true&lang=en'',
                            ''https://www.electricitymap.org/map?solar=true&lang=fr'',
                            ''https://www.electricitymap.org/map?solar=true&lang=de''],
           bundleHash = ''abc123'', vendorHash = ''77aa88'',
           stylesHash = ''0a1b2c'', vendorStylesHash = ''99bb00'',
           fullUrl = ''https://www.electricitymap.org/map?solar=true'',
           view_locale = ''en'', supportedLocales = [''en'', ''fr'', ''de''],
           FBLocale = Some ''en_US'',
           supportedFBLocales = [''en_US'', ''fr_FR'', ''de_DE'']\<rparr>
   \<and> accessGate premium_env crawler_request = Denied
   \<and> catchAll sample_app premium_env crawler_request
      = Send 401 [(''WWW-Authenticate'', challenge)] ''Access denied''"
proof -
  have g1: "accessGate open_env crawler_request = Granted []"
    by (simp add: accessGate_def open_env_def)
  have g2: "accessGate premium_env crawler_request = Denied"
    by (simp add: accessGate_def premium_env_def crawler_request_def authorized_def)
  have w1: "catchAll sample_app open_env browser_request
            = Redirect 301 (''https://www.electricitymap.org'' @ originalUrl browser_request)"
    using canonical_redirect [of browser_request "''electricitymap.org''" sample_app open_env]
      browser_facts(1,2) crawler_facts(2,3) by blast
  then have w1': "catchAll sample_app open_env browser_request
                  = Redirect 301 ''https://www.electricitymap.org/map?solar=true''"
    by (simp add: browser_facts(3))
  have w2: "catchAll sample_app open_env crawler_request
            = Render []
                \<lparr>alternateUrls =
                   map (alternateUrl (''https://www.electricitymap.org'' @ originalUrl crawler_request)
                          (query crawler_request)) (locales sample_app),
                 bundleHash = BUNDLE_HASH sample_hashes, vendorHash = VENDOR_HASH sample_hashes,
                 stylesHash = STYLES_HASH sample_hashes,
                 vendorStylesHash = VENDOR_STYLES_HASH sample_hashes,
                 fullUrl = ''https://www.electricitymap.org'' @ originalUrl crawler_request,
                 view_locale = ''en'', supportedLocales = locales sample_app,
                 FBLocale = localeToFacebookLocale sample_app ''en'',
                 supportedFBLocales = supportedFacebookLocales sample_app\<rparr>"
    using canonical_redirect [of crawler_request "''electricitymap.org''" sample_app open_env
        "''en''" "[]" sample_hashes]
      crawler_facts(1,4,5,6) g1 by blast
  have u: "alternateUrl ''https://www.electricitymap.org/map?solar=true'' (query crawler_request) l
           = ''https://www.electricitymap.org/map?solar=true&lang='' @ l" for l
    by (simp add: alternateUrl_def str_indexOf_def crawler_request_def)
  have v: "originalUrl crawler_request = ''/map?solar=true''"
    "locales sample_app = [''en'', ''fr'', ''de'']"
    "localeToFacebookLocale sample_app ''en'' = Some ''en_US''"
    "supportedFacebookLocales sample_app = [''en_US'', ''fr_FR'', ''de_DE'']"
    "BUNDLE_HASH sample_hashes = ''abc123''" "VENDOR_HASH sample_hashes = ''77aa88''"
    "STYLES_HASH sample_hashes = ''0a1b2c''" "VENDOR_STYLES_HASH sample_hashes = ''99bb00''"
    by (simp_all add: crawler_request_def sample_app_def sample_hashes_def)
  have w2': "catchAll sample_app open_env crawler_request
      = Render []
          \<lparr>alternateUrls = [''https://www.electricitymap.org/map?solar=true&lang=en'',
                            ''https://www.electricitymap.org/map?solar=true&lang=fr'',
                            ''https://www.electricitymap.org/map?solar=true&lang=de''],
           bundleHash = ''abc123'', vendorHash = ''77aa88'',
           stylesHash = ''0a1b2c'', vendorStylesHash = ''99bb00'',
           fullUrl = ''https://www.electricitymap.org/map?solar=true'',
           view_locale = ''en'', supportedLocales = [''en'', ''fr'', ''de''],
           FBLocale = Some ''en_US'',
           supportedFBLocales = [''en_US'', ''fr_FR'', ''de_DE'']\<rparr>"
    using w2 by (simp add: v u)
  have w3: "catchAll sample_app premium_env crawler_request
            = Send 401 [(''WWW-Authenticate'', challenge)] ''Access denied''"
    using canonical_redirect [of crawler_request "''electricitymap.org''" sample_app premium_env
        "''en''"]
      crawler_facts(1,4,5) g2 by blast
  from browser_facts(1,2) crawler_facts w1' w2' w3 g1 g2 show ?thesis by blast
qed

lemma french_facts:
  "map_of (headers french_request) ''host'' = Some ''www.electricitymap.org''"
  "\<not> redirects ''www.electricitymap.org'' french_request"
  "map_of (query french_request) ''fb_locale'' = Some (QStr ''fr_FR'')"
  "setLocale sample_app (first_segment ''fr_FR'') = ''fr''"
  "srcHashes sample_app ''fr'' = None"
  "accessGate open_env french_request = Granted []"
  by (simp_all add: french_request_def redirects_def isNonWWW_def isTmrowCo_def isStaging_def
      str_indexOf_def sample_app_def first_segment_def accessGate_def open_env_def)

text \<open>
  Claim C10. The render step looks the resolved locale up in the asset-hash table
  without a guard: when the table has no record for it, building the view model raises
  a \<open>TypeError\<close> and the handler throws instead of rendering; with a record it
  renders. The locale can come from the \<open>fb_locale\<close> parameter, and for a configured
  locale the table built at startup lacks the record exactly when loading its manifest
  failed. The handler-level statement is for a request that reaches the render step
  (not redirected, access granted).
\<close>

theorem render_throws_without_hashes:
  "(srcHashes st loc = None \<longrightarrow> render st req loc cs = Throw TypeError)
   \<and> (srcHashes st loc = Some hs \<longrightarrow> (\<exists>vm. render st req loc cs = Render cs vm))
   \<and> (srcHashes st loc = None \<and> map_of (headers req) ''host'' = Some h \<and> \<not> redirects h req
       \<and> resolveLocale st req = Inr loc \<and> accessGate env req = Granted cs
      \<longrightarrow> catchAll st env req = Throw TypeError)
   \<and> (map_of (query req) ''fb_locale'' = Some (QStr s) \<and> s \<noteq> []
      \<longrightarrow> resolveLocale st req = Inr (setLocale st (first_segment s)))
   \<and> (srcHashes st = srcHashes_of inh rd parse base (locales st) \<and> loc \<in> set (locales st)
      \<longrightarrow> (srcHashes st loc = None) = (\<exists>e. loadManifest inh rd parse base loc = Inl e))"
proof (intro conjI impI)
  assume "srcHashes st loc = None"
  then show "render st req loc cs = Throw TypeError" by (rule render_cases(1))
next
  assume "srcHashes st loc = Some hs"
  then show "\<exists>vm. render st req loc cs = Render cs vm" by (simp add: render_cases(2))
next
  assume a: "srcHashes st loc = None \<and> map_of (headers req) ''host'' = Some h
       \<and> \<not> redirects h req \<and> resolveLocale st req = Inr loc \<and> accessGate env req = Granted cs"
  then have "catchAll st env req = render st req loc cs"
    by (simp add: catchAll_continue [of req h st loc env])
  with a show "catchAll st env req = Throw TypeError" by (simp add: render_cases(1))
next
  assume "map_of (query req) ''fb_locale'' = Some (QStr s) \<and> s \<noteq> []"
  then show "resolveLocale st req = Inr (setLocale st (first_segment s))"
    by (simp add: resolveLocale_def)
next
  assume "srcHashes st = srcHashes_of inh rd parse base (locales st) \<and> loc \<in> set (locales st)"
  then show "(srcHashes st loc = None) = (\<exists>e. loadManifest inh rd parse base loc = Inl e)"
    by (simp add: srcHashes_of_None)
qed

text \<open>
  The theorem at \<open>GET /?fb_locale=fr_FR\<close>, with a table that has no record for \<open>fr\<close>.
\<close>

theorem render_throws_without_hashes_witness:
  "map_of (query french_request) ''fb_locale'' = Some (QStr ''fr_FR'') \<and> ''fr_FR'' \<noteq> []
   \<and> resolveLocale sample_app french_request = Inr ''fr''
   \<and> srcHashes sample_app ''fr'' = None
   \<and> map_of (headers french_request) ''host'' = Some ''www.electricitymap.org''
   \<and> \<not> redirects ''www.electricitymap.org'' french_request
   \<and> accessGate open_env french_request = Granted []
   \<and> render sample_app french_request ''fr'' [] = Throw TypeError
   \<and> catchAll sample_app open_env french_request = Throw TypeError"
proof -
  have ne: "''fr_FR'' \<noteq> []" by simp
  note t = render_throws_without_hashes [of sample_app "''fr''" french_request "[]" _
      "''www.electricitymap.org''" open_env "''fr_FR''"]
  have "resolveLocale sample_app french_request
        = Inr (setLocale sample_app (first_segment ''fr_FR''))"
    using t french_facts(3) ne by blast
  then have l: "resolveLocale sample_app french_request = Inr ''fr''"
    by (simp add: french_facts(4))
  have r: "render sample_app french_request ''fr'' [] = Throw TypeError"
    using t french_facts(5) by blast
  have c: "catchAll sample_app open_env french_request = Throw TypeError"
    using t french_facts(1,2,5,6) l by blast
  from french_facts(1,2,3,5,6) ne l r c show ?thesis by blast
qed

section \<open>Properties of \<open>getRatioPercent\<close>\<close>

lemma perc_zero_total: "perc fl v (Fin 0) = Infinite \<or> perc fl v (Fin 0) = NaN"
  by (cases v) (simp_all add: perc_def)

lemma perc_nan: "perc fl NaN t = NaN" "perc fl v NaN = NaN"
  by (cases v; simp add: perc_def)+

lemma perc_infinite_value: "perc fl Infinite t = Infinite \<or> perc fl Infinite t = NaN"
  by (cases t) (simp_all add: perc_def)

lemma perc_finite:
  assumes "b \<noteq> 0" "\<bar>fl (a / b)\<bar> \<le> max_double" "\<bar>fl (fl (a / b) * 10000)\<bar> \<le> max_double"
  shows "perc fl (Fin a) (Fin b)
         = to_double fl (of_int \<lfloor>fl (fl (a / b) * 10000) + 1 / 2\<rfloor> / 100)"
  using assms by (simp add: perc_def to_double_def)

lemma perc_overflow:
  assumes "b \<noteq> 0" "max_double < \<bar>fl (a / b)\<bar> \<or> max_double < \<bar>fl (fl (a / b) * 10000)\<bar>"
  shows "perc fl (Fin a) (Fin b) = Infinite"
  using assms by (auto simp: perc_def to_double_def)

lemma sample_percentages:
  "perc exact_rounding (Fin 1) (Fin 3) = Fin (3333 / 100)"
  "show_nat 33 = ''33''"
  "sample_number_string (3333 / 100) = ''33.33''"
proof -
  show "perc exact_rounding (Fin 1) (Fin 3) = Fin (3333 / 100)"
    by (simp add: perc_def to_double_def exact_rounding_def max_double_def floor_eq_iff)
  show s: "show_nat 33 = ''33''"
    by (simp add: show_nat.simps [of 33] show_nat.simps [of 3] digit_char_def)
  show "sample_number_string (3333 / 100) = ''33.33''"
    by (simp add: sample_number_string_def s digit_char_def Let_def)
qed

text \<open>
  Claim C9, as stated, fails: for the finite inputs \<open>2^1014\<close> and \<open>1\<close> the total is not
  zero and the ratio in percent, rounded to two decimal places, is \<open>100\<close> times \<open>2^1014\<close>, a
  finite number within the range of the doubles; but the code multiplies the ratio by
  \<open>10000\<close> first, that product overflows to \<open>Infinity\<close>, and the result is \<open>?\<close>.
\<close>

theorem getRatioPercent_counterexample:
  "(1 :: rat) \<noteq> 0
   \<and> \<bar>of_int \<lfloor>(2 :: rat) ^ 1014 / 1 * 100 * 100 + 1 / 2\<rfloor> / 100\<bar> \<le> max_double
   \<and> getRatioPercent exact_rounding sample_number_string (Fin (2 ^ 1014)) (Fin 1) = ''?''"
  by (simp add: getRatioPercent_def perc_def to_double_def exact_rounding_def max_double_def)

text \<open>
  Claim C9, amended. \<open>getRatioPercent\<close> never throws (it is a total function into
  strings). It returns \<open>?\<close> when the total is zero, when the value is infinite, when
  either input is \<open>NaN\<close>, and when \<open>value / total\<close> or its product with \<open>10000\<close>
  overflows. When both inputs are finite, the total is not zero and neither
  \<open>value / total\<close>, nor its product with \<open>10000\<close>, nor the final quotient overflows, it
  returns \<open>Math.round(value / total * 10000) / 100\<close> rendered as a string. For a finite
  value and an infinite total it returns the string of zero.
\<close>

theorem getRatioPercent_total:
  "getRatioPercent fl to_str v (Fin 0) = ''?''
   \<and> getRatioPercent fl to_str Infinite t = ''?''
   \<and> getRatioPercent fl to_str NaN t = ''?''
   \<and> getRatioPercent fl to_str v NaN = ''?''
   \<and> (b \<noteq> 0 \<and> (max_double < \<bar>fl (a / b)\<bar> \<or> max_double < \<bar>fl (fl (a / b) * 10000)\<bar>)
      \<longrightarrow> getRatioPercent fl to_str (Fin a) (Fin b) = ''?'')
   \<and> (b \<noteq> 0 \<and> \<bar>fl (a / b)\<bar> \<le> max_double \<and> \<bar>fl (fl (a / b) * 10000)\<bar> \<le> max_double
       \<and> \<bar>fl (of_int \<lfloor>fl (fl (a / b) * 10000) + 1 / 2\<rfloor> / 100)\<bar> \<le> max_double
      \<longrightarrow> getRatioPercent fl to_str (Fin a) (Fin b)
          = to_str (fl (of_int \<lfloor>fl (fl (a / b) * 10000) + 1 / 2\<rfloor> / 100)))
   \<and> (fl 0 = 0 \<longrightarrow> getRatioPercent fl to_str (Fin a) Infinite = to_str 0)"
proof (intro conjI impI)
  show "getRatioPercent fl to_str v (Fin 0) = ''?''"
    using perc_zero_total [of fl v] by (auto simp: getRatioPercent_def)
  show "getRatioPercent fl to_str Infinite t = ''?''"
    using perc_infinite_value [of fl t] by (auto simp: getRatioPercent_def)
  show "getRatioPercent fl to_str NaN t = ''?''"
    by (simp add: getRatioPercent_def perc_nan)
  show "getRatioPercent fl to_str v NaN = ''?''"
    by (simp add: getRatioPercent_def perc_nan)
next
  assume "b \<noteq> 0 \<and> (max_double < \<bar>fl (a / b)\<bar> \<or> max_double < \<bar>fl (fl (a / b) * 10000)\<bar>)"
  then have "perc fl (Fin a) (Fin b) = Infinite" by (simp add: perc_overflow)
  then show "getRatioPercent fl to_str (Fin a) (Fin b) = ''?''"
    by (simp add: getRatioPercent_def)
next
  assume a: "b \<noteq> 0 \<and> \<bar>fl (a / b)\<bar> \<le> max_double \<and> \<bar>fl (fl (a / b) * 10000)\<bar> \<le> max_double
       \<and> \<bar>fl (of_int \<lfloor>fl (fl (a / b) * 10000) + 1 / 2\<rfloor> / 100)\<bar> \<le> max_double"
  then have "perc fl (Fin a) (Fin b)
             = to_double fl (of_int \<lfloor>fl (fl (a / b) * 10000) + 1 / 2\<rfloor> / 100)"
    by (simp add: perc_finite)
  with a show "getRatioPercent fl to_str (Fin a) (Fin b)
          = to_str (fl (of_int \<lfloor>fl (fl (a / b) * 10000) + 1 / 2\<rfloor> / 100))"
    by (simp add: getRatioPercent_def to_double_def)
next
  assume z: "fl 0 = 0"
  have f: "\<lfloor>(1 :: rat) / 2\<rfloor> = 0" by (simp add: floor_eq_iff)
  have m: "(0 :: rat) \<le> max_double" by (simp add: max_double_def)
  from z m show "getRatioPercent fl to_str (Fin a) Infinite = to_str 0"
    by (simp add: getRatioPercent_def perc_def to_double_def f)
qed

text \<open>
  The amended statement at \<open>1 / 3\<close>, which gives \<open>33.33\<close>, and at \<open>2^1014 / 1\<close>, where
  the product with \<open>10000\<close> overflows.
\<close>

theorem getRatioPercent_total_witness:
  "(3 :: rat) \<noteq> 0
   \<and> \<bar>exact_rounding (1 / 3)\<bar> \<le> max_double
   \<and> \<bar>exact_rounding (exact_rounding (1 / 3) * 10000)\<bar> \<le> max_double
   \<and> getRatioPercent exact_rounding sample_number_string (Fin 1) (Fin 3) = ''33.33''
   \<and> (1 :: rat) \<noteq> 0
   \<and> max_double < \<bar>exact_rounding (exact_rounding (2 ^ 1014 / 1) * 10000)\<bar>
   \<and> getRatioPercent exact_rounding sample_number_string (Fin (2 ^ 1014)) (Fin 1) = ''?''
   \<and> exact_rounding 0 = 0
   \<and> getRatioPercent exact_rounding sample_number_string (Fin 1) Infinite = ''0''"
proof -
  have h1: "(3 :: rat) \<noteq> 0" and h2: "\<bar>exact_rounding (1 / 3)\<bar> \<le> max_double"
    and h3: "\<bar>exact_rounding (exact_rounding (1 / 3) * 10000)\<bar> \<le> max_double"
    and h4: "\<bar>exact_rounding (of_int \<lfloor>exact_rounding (exact_rounding (1 / 3) * 10000) + 1 / 2\<rfloor> / 100)\<bar>
             \<le> max_double"
    and r: "exact_rounding (of_int \<lfloor>exact_rounding (exact_rounding (1 / 3) * 10000) + 1 / 2\<rfloor> / 100)
            = 3333 / 100"
    by (simp_all add: exact_rounding_def max_double_def floor_eq_iff)
  have h5: "(1 :: rat) \<noteq> 0"
    and h6: "max_double < \<bar>exact_rounding (exact_rounding (2 ^ 1014 / 1) * 10000)\<bar>"
    and h7: "exact_rounding 0 = 0"
    by (simp_all add: exact_rounding_def max_double_def)
  have z: "sample_number_string 0 = ''0''"
    by (simp add: sample_number_string_def show_nat.simps [of 0] digit_char_def)
  note t1 = getRatioPercent_total [of exact_rounding sample_number_string _ _ 3 1]
  note t2 = getRatioPercent_total [of exact_rounding sample_number_string _ _ 1 "2 ^ 1014"]
  have w1: "getRatioPercent exact_rounding sample_number_string (Fin 1) (Fin 3) = ''33.33''"
    using t1 h1 h2 h3 h4 unfolding r sample_percentages(3) by blast
  have w2: "getRatioPercent exact_rounding sample_number_string (Fin (2 ^ 1014)) (Fin 1) = ''?''"
    using t2 h5 h6 by blast
  have w3: "getRatioPercent exact_rounding sample_number_string (Fin 1) Infinite = ''0''"
    using t1 h7 unfolding z by blast
  from h1 h2 h3 w1 h5 h6 w2 h7 w3 show ?thesis by blast
qed

end
